theory Spec2Isabelle
  imports Complex_Main "HOL-Library.AList" "HOL-Library.Char_ord" "HOL-Library.List_Lexorder"
    "HOL-Library.Log_Nat"
begin

section \<open>Python strings\<close>

text \<open>
  A Python \<open>str\<close> is modelled as a \<open>string\<close> (a list of 8-bit characters).  The only
  non-ASCII text in the modelled sources is the alias target for the Ivory Coast, which is
  written as its UTF-8 bytes.  \<open>str.strip\<close>, \<open>str.upper\<close> and \<open>str.lower\<close> are modelled on
  the ASCII range: bytes outside it are neither white space nor letters.
\<close>

definition ascii_lowercase :: string where
  "ascii_lowercase = ''abcdefghijklmnopqrstuvwxyz''"

definition ascii_uppercase :: string where
  "ascii_uppercase = ''ABCDEFGHIJKLMNOPQRSTUVWXYZ''"

definition upper_char :: "char \<Rightarrow> char" where
  "upper_char c = (case map_of (zip ascii_lowercase ascii_uppercase) c of Some u \<Rightarrow> u | None \<Rightarrow> c)"

definition lower_char :: "char \<Rightarrow> char" where
  "lower_char c = (case map_of (zip ascii_uppercase ascii_lowercase) c of Some l \<Rightarrow> l | None \<Rightarrow> c)"

definition upper :: "string \<Rightarrow> string" where
  "upper s = map upper_char s"

definition lower :: "string \<Rightarrow> string" where
  "lower s = map lower_char s"

definition whitespace :: "char list" where
  "whitespace = [CHR '' '', CHR 0x09, CHR 0x0A, CHR 0x0B, CHR 0x0C, CHR 0x0D,
                 CHR 0x1C, CHR 0x1D, CHR 0x1E, CHR 0x1F]"

definition is_space :: "char \<Rightarrow> bool" where
  "is_space c = (c \<in> set whitespace)"

definition strip :: "string \<Rightarrow> string" where
  "strip s = rev (dropWhile is_space (rev (dropWhile is_space s)))"

definition replace_char :: "char \<Rightarrow> char \<Rightarrow> string \<Rightarrow> string" where
  "replace_char old new s = map (\<lambda>c. if c = old then new else c) s"

text \<open>\<open>d.get(k, default)\<close> on a dictionary given as an association list.\<close>

definition dict_get :: "('k \<times> 'v) list \<Rightarrow> 'k \<Rightarrow> 'v \<Rightarrow> 'v" where
  "dict_get d k dflt = (case map_of d k of Some v \<Rightarrow> v | None \<Rightarrow> dflt)"

section \<open>Country identity: \<open>scores/utils.py\<close>\<close>

definition COUNTRY_MAPPING :: "(string \<times> string) list" where
  "COUNTRY_MAPPING =
    [(''USA'', ''United States''), (''CHN'', ''China''), (''IND'', ''India''),
     (''DEU'', ''Germany''), (''RUS'', ''Russia''), (''KOR'', ''South Korea''),
     (''GBR'', ''United Kingdom''), (''FRA'', ''France''), (''JPN'', ''Japan''),
     (''BRA'', ''Brazil''), (''CAN'', ''Canada''), (''AUS'', ''Australia''),
     (''SAU'', ''Saudi Arabia''), (''ZAF'', ''South Africa''), (''ITA'', ''Italy''),
     (''ESP'', ''Spain''), (''NLD'', ''Netherlands''), (''POL'', ''Poland''),
     (''IDN'', ''Indonesia''), (''TUR'', ''Turkey''), (''MEX'', ''Mexico''),
     (''IRN'', ''Iran''), (''THA'', ''Thailand''), (''ARE'', ''United Arab Emirates''),
     (''EGY'', ''Egypt''), (''ISR'', ''Israel''), (''NOR'', ''Norway''),
     (''ARG'', ''Argentina''), (''IRL'', ''Ireland''), (''MYS'', ''Malaysia''),
     (''BGD'', ''Bangladesh''), (''PHL'', ''Philippines''), (''SGP'', ''Singapore''),
     (''CHL'', ''Chile''), (''FIN'', ''Finland''), (''DNK'', ''Denmark''),
     (''NZL'', ''New Zealand''), (''SWE'', ''Sweden''), (''AUT'', ''Austria''),
     (''ISL'', ''Iceland''), (''BEL'', ''Belgium''), (''CHE'', ''Switzerland'')]"

definition aliases :: "(string \<times> string) list" where
  "aliases =
    [(''UK'', ''United Kingdom''), (''US'', ''United States''), (''USA'', ''United States''),
     (''United States of America'', ''United States''), (''S. Korea'', ''South Korea''),
     (''Viet Nam'', ''Vietnam''), (''Congo'', ''Democratic Republic of the Congo''),
     (''Ivory Coast'', ''C'' @ [CHR 0xC3, CHR 0xB4] @ ''te d'' @ [CHR 0x27] @ ''Ivoire''),
     (''Russian Federation'', ''Russia''), (''Iran, Islamic Rep.'', ''Iran''),
     (''Egypt, Arab Rep.'', ''Egypt'')]"

text \<open>
  The argument of \<open>standardize_country_name\<close> is annotated \<open>Union[str, None]\<close>; its callers
  also pass the missing-value marker of a table cell.
\<close>

datatype py_name = PyNone | PyNaN | PyStr string

fun isna_name :: "py_name \<Rightarrow> bool" where
  "isna_name PyNone = True"
| "isna_name PyNaN = True"
| "isna_name (PyStr s) = False"

fun str_of :: "py_name \<Rightarrow> string" where
  "str_of (PyStr s) = s"
| "str_of PyNone = ''None''"
| "str_of PyNaN = ''nan''"

definition standardize_country_name :: "py_name \<Rightarrow> string option" where
  "standardize_country_name name =
    (if isna_name name \<or> name = PyNone then None
     else let name' = strip (str_of name) in
       (case map_of COUNTRY_MAPPING (upper name') of
          Some canonical \<Rightarrow> Some canonical
        | None \<Rightarrow> Some (dict_get aliases name' name')))"

section \<open>Numbers, missing values and errors\<close>

text \<open>
  Python floats are modelled as exact reals, except in the section on binary64
  arithmetic, where every result is rounded.  A missing value (\<open>None\<close>, \<open>NaN\<close>) of a
  numeric series is \<open>None\<close>.  Every exception the modelled code can raise is a value of
  \<open>error\<close>, returned as \<open>Inl\<close>.
\<close>

datatype error = ValueError | KeyError | TypeError

definition smin :: "real list \<Rightarrow> real" where
  "smin xs = fold min (tl xs) (hd xs)"

definition smax :: "real list \<Rightarrow> real" where
  "smax xs = fold max (tl xs) (hd xs)"

section \<open>Series normalizer: \<open>scores/utils.py\<close>\<close>

text \<open>
  \<open>pd.to_numeric(series, errors='coerce').dropna()\<close>: the numeric entries of the series,
  each with its position (the index label it keeps).
\<close>

fun dropna_from :: "nat \<Rightarrow> real option list \<Rightarrow> (nat \<times> real) list" where
  "dropna_from i [] = []"
| "dropna_from i (None # cs) = dropna_from (Suc i) cs"
| "dropna_from i (Some x # cs) = (i, x) # dropna_from (Suc i) cs"

definition dropna_indexed :: "real option list \<Rightarrow> (nat \<times> real) list" where
  "dropna_indexed series = dropna_from 0 series"

definition min_max_scale :: "real list \<Rightarrow> real option list" where
  "min_max_scale xs =
    (let min_val = smin xs; max_val = smax xs in
     if min_val = max_val then map (\<lambda>_. Some 50) xs
     else map (\<lambda>x. Some (100 * (x - min_val) / (max_val - min_val))) xs)"

definition clip :: "real \<Rightarrow> real \<Rightarrow> real \<Rightarrow> real" where
  "clip lo hi x = min hi (max lo x)"

text \<open>
  \<open>scipy.stats.zscore\<close> with the population standard deviation; a constant sample has
  standard deviation 0 and every z-score is \<open>0/0 = NaN\<close>.
\<close>

definition zscore :: "real list \<Rightarrow> real option list" where
  "zscore xs =
    (let n = real (length xs);
         mean = sum_list xs / n;
         std = sqrt (sum_list (map (\<lambda>x. (x - mean)\<^sup>2) xs) / n)
     in map (\<lambda>x. if std = 0 then None else Some ((x - mean) / std)) xs)"

definition z_score_scale :: "real list \<Rightarrow> real option list" where
  "z_score_scale xs = map (map_option (\<lambda>z. clip 0 100 (50 + z * 50 / 3))) (zscore xs)"

text \<open>\<open>scipy.stats.percentileofscore(s, x)\<close> with its default kind \<open>rank\<close>.\<close>

definition percentileofscore :: "real list \<Rightarrow> real \<Rightarrow> real" where
  "percentileofscore a score =
    (let left = length (filter (\<lambda>y. y < score) a);
         right = length (filter (\<lambda>y. y \<le> score) a);
         plus1 = (if left < right then 1 else 0)
     in real (left + right + plus1) * (50 / real (length a)))"

definition percentile_scale :: "real list \<Rightarrow> real option list" where
  "percentile_scale xs = map (\<lambda>x. Some (percentileofscore xs x)) xs"

definition scale_values :: "string \<Rightarrow> real list \<Rightarrow> error + real option list" where
  "scale_values method xs =
    (if method = ''min_max'' then Inr (min_max_scale xs)
     else if method = ''z_score'' then Inr (z_score_scale xs)
     else if method = ''percentile'' then Inr (percentile_scale xs)
     else Inl ValueError)"

text \<open>
  \<open>normalize_series(series, higher_is_better, method)\<close>.  The result starts as
  \<open>pd.Series(50, index=series.index)\<close>, a series of integers, and
  \<open>result.update(normalized)\<close> overwrites the positions at which \<open>normalized\<close> holds a
  number.  What happens when a written number is not a whole number depends on the
  installed pandas, which \<open>requirements.txt\<close> leaves open (\<open>pandas>=2.2.1\<close>): pandas 2
  converts the series to floats and writes; pandas 3 raises \<open>TypeError\<close>.  The flag
  \<open>lossy_setitem_raises\<close> is \<open>True\<close> for the second behaviour.  Whole numbers are written in
  both.
\<close>

definition is_integer :: "real \<Rightarrow> bool" where
  "is_integer v = (of_int \<lfloor>v\<rfloor> = v)"

definition normalize_series ::
  "bool \<Rightarrow> real option list \<Rightarrow> bool \<Rightarrow> string \<Rightarrow> error + real list" where
  "normalize_series lossy_setitem_raises series higher_is_better method =
    (let s = dropna_indexed series in
     if s = [] then Inr (replicate (length series) 50)
     else
       (case scale_values method (map snd s) of
          Inl e \<Rightarrow> Inl e
        | Inr normalized \<Rightarrow>
            let normalized' =
                  (if \<not> higher_is_better then map (map_option (\<lambda>v. 100 - v)) normalized
                   else normalized);
                upd = zip (map fst s) normalized';
                written = List.map_filter snd upd
            in if lossy_setitem_raises \<and> \<not> list_all is_integer written then Inl TypeError
               else Inr (map (\<lambda>i. case map_of upd i of Some (Some v) \<Rightarrow> v | _ \<Rightarrow> 50)
                           [0..<length series])))"

text \<open>\<open>normalize_score(value, min_val, max_val, default)\<close> on a number or a missing value.\<close>

definition normalize_score :: "real option \<Rightarrow> real \<Rightarrow> real \<Rightarrow> real \<Rightarrow> real" where
  "normalize_score v min_val max_val dflt =
    (case v of
       None \<Rightarrow> dflt
     | Some x \<Rightarrow>
         if min_val = max_val then dflt
         else max 0 (min 100 (100 * (x - min_val) / (max_val - min_val))))"


section \<open>Directional normalizer of the dimension pipelines: \<open>data/*/*_scores.py\<close>\<close>

text \<open>
  \<open>data/ecological/ecological_scores.py\<close>, \<open>data/infrastructure/infrastructure_scores.py\<close>
  and \<open>data/resource/resource_scores.py\<close> each define the same function
  \<open>normalize(series, higher_is_worse, method)\<close>.  Its argument is modelled after
  \<open>pd.to_numeric(series, errors='coerce')\<close>: a number or a missing value at each position.
  \<open>mean\<close>, \<open>std\<close>, \<open>min\<close> and \<open>max\<close> of a series skip its missing values; arithmetic
  on a missing value gives a missing value; the constant series \<open>pd.Series(0.5, index)\<close> of
  the degenerate case holds \<open>0.5\<close> at every position, also where \<open>series\<close> has no number.
\<close>

definition dropna :: "real option list \<Rightarrow> real list" where
  "dropna s = List.map_filter (\<lambda>c. c) s"

definition mean :: "real list \<Rightarrow> real" where
  "mean xs = sum_list xs / real (length xs)"

text \<open>\<open>s.std(ddof=0)\<close>: the population standard deviation.\<close>

definition std0 :: "real list \<Rightarrow> real" where
  "std0 xs = sqrt (sum_list (map (\<lambda>x. (x - mean xs)\<^sup>2) xs) / real (length xs))"

definition normalize_metric :: "real option list \<Rightarrow> bool \<Rightarrow> string \<Rightarrow> real option list" where
  "normalize_metric series higher_is_worse method =
    (let s = series in
     if dropna s = [] then replicate (length s) None
     else
       let scaled =
             (if method = ''zscore'' then
                let sd = std0 (dropna s);
                    z = map (map_option (\<lambda>x. (x - mean (dropna s)) / (if sd \<noteq> 0 then sd else 1))) s;
                    mi = smin (dropna z);
                    ma = smax (dropna z)
                in if ma \<noteq> mi then map (map_option (\<lambda>x. (x - mi) / (ma - mi))) z
                   else replicate (length s) (Some (1/2))
              else
                let mi = smin (dropna s);
                    ma = smax (dropna s)
                in if ma \<noteq> mi then map (map_option (\<lambda>x. (x - mi) / (ma - mi))) s
                   else replicate (length s) (Some (1/2)));
           scaled' = (if \<not> higher_is_worse then map (map_option (\<lambda>x. 1 - x)) scaled else scaled)
       in map (map_option (\<lambda>x. 100 * x)) scaled')"

text \<open>
  The scaled value, in the words of the specification: the position of each number
  between the least and the greatest number of the series, on the scale from 0 to 1; one
  half when they coincide.  With the method \<open>zscore\<close> the numbers are first replaced by
  their z-scores.
\<close>

definition unit_scale :: "real option list \<Rightarrow> real option list" where
  "unit_scale s =
    (if Min (set (dropna s)) = Max (set (dropna s)) then map (\<lambda>_. Some (1/2)) s
     else map (map_option (\<lambda>x. (x - Min (set (dropna s))) / (Max (set (dropna s)) - Min (set (dropna s))))) s)"

definition z_scores :: "real option list \<Rightarrow> real option list" where
  "z_scores s =
    map (map_option (\<lambda>x. (x - mean (dropna s)) / (if std0 (dropna s) = 0 then 1 else std0 (dropna s)))) s"

definition scaled_value :: "real option list \<Rightarrow> string \<Rightarrow> real option list" where
  "scaled_value s method =
    (if dropna s = [] then map (\<lambda>_. None) s
     else if method = ''zscore'' then unit_scale (z_scores s)
     else unit_scale s)"

section \<open>Composite aggregator: \<open>fvi_aggregator.py\<close>\<close>

subsection \<open>Data\<close>

text \<open>
  A persona's weight profile is a Python \<open>dict\<close> from dimension to weight, kept as an
  association list in insertion order; \<open>self.weights\<close> maps persona names to profiles.
\<close>

type_synonym profile = "(string \<times> real) list"

text \<open>
  A score table is a \<open>DataFrame\<close> of floats: the row labels (countries) and, in column
  order, each column's label and values.  A missing value (\<open>NaN\<close>) is \<open>None\<close>.  Column
  labels may repeat, as pandas allows.
\<close>

record dataframe =
  index :: "string list"
  cols :: "(string \<times> real option list) list"

text \<open>A float \<open>Series\<close> indexed by country.\<close>

type_synonym series = "(string \<times> real option) list"

datatype log_level = INFO | WARNING | ERROR

text \<open>
  The aggregator object together with the memory it shares with its caller.  \<open>heap\<close>
  holds every live \<open>DataFrame\<close>, addressed by position; \<open>scores_df\<close> is the reference
  stored in \<open>self.scores_df\<close> (\<open>None\<close> in Python is \<open>None\<close> here); \<open>logged\<close> collects
  the calls to \<open>logging\<close> with their level and message text (interpolated values left out).
\<close>

record py_state =
  heap :: "dataframe list"
  weights :: "(string \<times> profile) list"
  current_persona :: string
  current_weights :: profile
  scores_df :: "nat option"
  logged :: "(log_level \<times> string) list"

subsection \<open>Initialisation and personas\<close>

definition default_weights :: "(string \<times> profile) list" where
  "default_weights =
    [(''investor'',
        [(''economic'', 0.25), (''artificial_support'', 0.20), (''emissions'', 0.20),
         (''infrastructure'', 0.15), (''resource'', 0.10), (''ecological'', 0.05),
         (''necessity'', 0.05)]),
     (''policy_maker'',
        [(''necessity'', 0.20), (''economic'', 0.20), (''emissions'', 0.20),
         (''infrastructure'', 0.15), (''ecological'', 0.15), (''artificial_support'', 0.05),
         (''resource'', 0.05)]),
     (''ngo'',
        [(''emissions'', 0.25), (''ecological'', 0.25), (''necessity'', 0.20),
         (''infrastructure'', 0.10), (''resource'', 0.10), (''artificial_support'', 0.05),
         (''economic'', 0.05)]),
     (''analyst'',
        [(''infrastructure'', 0.143), (''necessity'', 0.143), (''resource'', 0.143),
         (''artificial_support'', 0.143), (''ecological'', 0.143), (''economic'', 0.143),
         (''emissions'', 0.143)]),
     (''citizen'',
        [(''necessity'', 0.25), (''ecological'', 0.20), (''infrastructure'', 0.20),
         (''economic'', 0.15), (''emissions'', 0.10), (''artificial_support'', 0.05),
         (''resource'', 0.05)])]"

definition get_equal_weights :: profile where
  "get_equal_weights =
    (let dimensions = [''infrastructure'', ''necessity'', ''resource'', ''artificial_support'',
                       ''ecological'', ''economic'', ''emissions''];
         equal_weight = 1 / real (length dimensions)
     in map (\<lambda>dim. (dim, equal_weight)) dimensions)"

text \<open>
  \<open>__init__\<close>, given the \<open>persona_weights\<close> entry of the configuration file (empty when
  the file or the entry is missing) and the memory the object is created in.
\<close>

definition init :: "(string \<times> profile) list \<Rightarrow> dataframe list \<Rightarrow> py_state" where
  "init persona_weights h =
    (let ws = (if persona_weights = [] then default_weights else persona_weights) in
     \<lparr>heap = h, weights = ws, current_persona = ''analyst'',
      current_weights = dict_get ws ''analyst'' get_equal_weights,
      scores_df = None,
      logged = [(INFO, ''FVI Aggregator initialized'')]\<rparr>)"

definition set_persona :: "string \<Rightarrow> py_state \<Rightarrow> (error + unit) \<times> py_state" where
  "set_persona persona st =
    (let unknown = (persona \<notin> set (map fst (weights st)));
         st1 = (if unknown
                then st\<lparr>logged := logged st @ [(WARNING, ''Unknown persona, using analyst'')]\<rparr>
                else st);
         persona' = (if unknown then ''analyst'' else persona);
         st2 = st1\<lparr>current_persona := persona'\<rparr>
     in case map_of (weights st2) persona' of
          None \<Rightarrow> (Inl KeyError, st2)
        | Some w \<Rightarrow>
            (Inr (), st2\<lparr>current_weights := w,
                         logged := logged st2 @ [(INFO, ''Set persona'')]\<rparr>))"

subsection \<open>Table operations used by \<open>compute_fvi\<close>\<close>

definition empty_frame :: "dataframe \<Rightarrow> bool" where
  "empty_frame df = (index df = [] \<or> cols df = [])"

definition normalize_column_name :: "string \<Rightarrow> string" where
  "normalize_column_name col = replace_char CHR ''-'' CHR ''_'' (replace_char CHR '' '' CHR ''_'' (lower col))"

definition rename_columns :: "(string \<Rightarrow> string) \<Rightarrow> dataframe \<Rightarrow> dataframe" where
  "rename_columns f df = df\<lparr>cols := map (\<lambda>(name, vals). (f name, vals)) (cols df)\<rparr>"

text \<open>\<open>Index.unique\<close> keeps the first occurrence of each label.\<close>

definition unique :: "'a list \<Rightarrow> 'a list" where
  "unique xs = rev (remdups (rev xs))"

text \<open>\<open>Index.intersection\<close>: the distinct labels of the left index found in the right one.\<close>

definition intersection :: "'a list \<Rightarrow> 'a list \<Rightarrow> 'a list" where
  "intersection xs ys = filter (\<lambda>x. x \<in> set ys) (unique xs)"

definition column :: "dataframe \<Rightarrow> string \<Rightarrow> real option list" where
  "column df col = the (map_of (cols df) col)"

definition set_column :: "string \<Rightarrow> real option list \<Rightarrow> dataframe \<Rightarrow> dataframe" where
  "set_column col vals df =
     df\<lparr>cols := map (\<lambda>(name, old). if name = col then (name, vals) else (name, old)) (cols df)\<rparr>"

text \<open>\<open>Series.median\<close> skips missing values; the median of no value is \<open>NaN\<close>.\<close>

definition median :: "real option list \<Rightarrow> real option" where
  "median cs =
    (let xs = sort (List.map_filter id cs); n = length xs in
     if n = 0 then None
     else if odd n then Some (xs ! (n div 2))
     else Some ((xs ! (n div 2 - 1) + xs ! (n div 2)) / 2))"

definition fillna :: "real \<Rightarrow> real option list \<Rightarrow> real option list" where
  "fillna v cs = map (\<lambda>c. case c of None \<Rightarrow> Some v | Some x \<Rightarrow> Some x) cs"

text \<open>
  The result of a float division and of \<open>Series.clip\<close>: dividing by zero gives an
  infinity or \<open>NaN\<close> instead of raising, and \<open>clip\<close> leaves \<open>NaN\<close> as it is.
\<close>

datatype xreal = Fin real | PInf | MInf | NaN

definition true_div :: "real \<Rightarrow> real \<Rightarrow> xreal" where
  "true_div x y =
    (if y \<noteq> 0 then Fin (x / y) else if x > 0 then PInf else if x < 0 then MInf else NaN)"

fun clip_x :: "real \<Rightarrow> real \<Rightarrow> xreal \<Rightarrow> real option" where
  "clip_x lo hi (Fin x) = Some (clip lo hi x)"
| "clip_x lo hi PInf = Some hi"
| "clip_x lo hi MInf = Some lo"
| "clip_x lo hi NaN = None"

subsection \<open>\<open>compute_fvi\<close>\<close>

text \<open>
  The loop \<open>for col in available_cols\<close> on the copy at address \<open>a\<close>.  When two columns
  carry the label \<open>col\<close>, \<open>self.scores_df[col]\<close> is a table, its median a series, and
  testing \<open>pd.isna\<close> of a series in \<open>if\<close> raises \<open>ValueError\<close>.
\<close>

fun fill_loop :: "string list \<Rightarrow> nat \<Rightarrow> py_state \<Rightarrow> (error + unit) \<times> py_state" where
  "fill_loop [] a st = (Inr (), st)"
| "fill_loop (col # rest) a st =
    (let df = heap st ! a in
     if length (filter (\<lambda>name. name = col) (map fst (cols df))) \<noteq> 1 then (Inl ValueError, st)
     else
       let median_val = (case median (column df col) of None \<Rightarrow> 50 | Some m \<Rightarrow> m);
           df' = set_column col (fillna median_val (column df col)) df
       in fill_loop rest a (st\<lparr>heap := (heap st)[a := df']\<rparr>))"

text \<open>
  \<open>weighted_scores.sum(axis=1) / weights[available_cols].sum()\<close>, clipped to \<open>[0, 100]\<close>.
  The row sum skips missing values.
\<close>

definition weighted_fvi :: "dataframe \<Rightarrow> profile \<Rightarrow> string list \<Rightarrow> series" where
  "weighted_fvi df ws available_cols =
    (let total = sum_list (map (\<lambda>col. the (map_of ws col)) available_cols) in
     map (\<lambda>i. (index df ! i,
           clip_x 0 100
             (true_div
                (sum_list (map (\<lambda>col. case column df col ! i of
                                         Some s \<Rightarrow> s * the (map_of ws col)
                                       | None \<Rightarrow> 0) available_cols))
                total)))
       [0..<length (index df)])"

text \<open>\<open>compute_fvi(scores_df)\<close>, the argument being the address \<open>ref\<close> of the caller's table.\<close>

definition compute_fvi :: "nat \<Rightarrow> py_state \<Rightarrow> (error + series) \<times> py_state" where
  "compute_fvi ref st =
    (let scores = heap st ! ref in
     if empty_frame scores
     then (Inr [], st\<lparr>logged := logged st @ [(WARNING, ''Empty scores DataFrame provided'')]\<rparr>)
     else
       let a = length (heap st);
           st1 = st\<lparr>heap := heap st @ [scores], scores_df := Some a\<rparr>;
           st2 = st1\<lparr>heap := (heap st1)[a := rename_columns normalize_column_name (heap st1 ! a)]\<rparr>;
           ws = current_weights st2;
           available_cols = intersection (map fst (cols (heap st2 ! a))) (map fst ws)
       in if length available_cols = 0
          then (Inr [], st2\<lparr>logged := logged st2 @
                  [(ERROR, ''No overlapping scores for weighting''),
                   (ERROR, ''Available columns''),
                   (ERROR, ''Expected columns'')]\<rparr>)
          else
            (case fill_loop available_cols a st2 of
               (Inl e, st3) \<Rightarrow> (Inl e, st3)
             | (Inr u, st3) \<Rightarrow>
                 (Inr (weighted_fvi (heap st3 ! a) ws available_cols),
                  st3\<lparr>logged := logged st3 @ [(INFO, ''Computed FVI''), (INFO, ''Used dimensions'')]\<rparr>)))"

subsection \<open>\<open>compare_personas\<close>\<close>

text \<open>
  The loop over \<open>self.weights.keys()\<close>; \<open>results[persona] = fvi_scores\<close> is a dictionary
  update.  An exception leaves the loop with the state reached so far.
\<close>

fun compare_loop ::
  "string list \<Rightarrow> nat \<Rightarrow> (string \<times> series) list \<Rightarrow> py_state
     \<Rightarrow> (error + (string \<times> series) list) \<times> py_state" where
  "compare_loop [] ref results st = (Inr results, st)"
| "compare_loop (persona # rest) ref results st =
    (case set_persona persona st of
       (Inl e, st1) \<Rightarrow> (Inl e, st1)
     | (Inr u, st1) \<Rightarrow>
         (case compute_fvi ref st1 of
            (Inl e, st2) \<Rightarrow> (Inl e, st2)
          | (Inr fvi_scores, st2) \<Rightarrow>
              compare_loop rest ref (AList.update persona fvi_scores results) st2))"

text \<open>
  \<open>compare_personas(scores_df)\<close>.  The value returned is the dictionary \<open>results\<close>, which
  the source hands to the \<open>DataFrame\<close> constructor as its columns, one per persona.
\<close>

definition compare_personas ::
  "nat \<Rightarrow> py_state \<Rightarrow> (error + (string \<times> series) list) \<times> py_state" where
  "compare_personas ref st =
    (let original_persona = current_persona st in
     case compare_loop (map fst (weights st)) ref [] st of
       (Inl e, st1) \<Rightarrow> (Inl e, st1)
     | (Inr results, st1) \<Rightarrow>
         (case set_persona original_persona st1 of
            (Inl e, st2) \<Rightarrow> (Inl e, st2)
          | (Inr u, st2) \<Rightarrow> (Inr results, st2)))"

subsection \<open>Names for the intermediate values of \<open>compute_fvi\<close>\<close>

text \<open>
  The state after \<open>self.scores_df = scores_df.copy()\<close> and the renaming of the copy's
  columns, and the list \<open>available_cols\<close> computed from it.
\<close>

definition renamed_copy :: "nat \<Rightarrow> py_state \<Rightarrow> py_state" where
  "renamed_copy ref st =
     st\<lparr>scores_df := Some (length (heap st)),
        heap := heap st @ [rename_columns normalize_column_name (heap st ! ref)]\<rparr>"

definition available :: "profile \<Rightarrow> dataframe \<Rightarrow> string list" where
  "available ws df =
     intersection (map fst (cols (rename_columns normalize_column_name df))) (map fst ws)"

subsection \<open>Scaling a profile\<close>

text \<open>The profile \<open>{dim: c * w for dim, w in profile.items()}\<close>.\<close>

definition scale_weights :: "real \<Rightarrow> profile \<Rightarrow> profile" where
  "scale_weights c ws = map (\<lambda>(dim, w). (dim, c * w)) ws"

subsection \<open>Example inputs\<close>

definition example_scores :: dataframe where
  "example_scores =
    \<lparr>index = [''India'', ''China''],
     cols = [(''Economic'', [Some 60, None]), (''Emissions'', [Some 20, Some 80]),
             (''Other Col'', [None, None])]\<rparr>"

definition example_state :: py_state where
  "example_state = init [] [example_scores]"

text \<open>A table with one column and no row, and a table with no overlap with any profile.\<close>

definition no_rows :: dataframe where
  "no_rows = \<lparr>index = [], cols = [(''foo'', [])]\<rparr>"

definition foreign_scores :: dataframe where
  "foreign_scores = \<lparr>index = [''India''], cols = [(''GDP'', [Some 3])]\<rparr>"

subsection \<open>The composite index in the words of the specification\<close>

text \<open>
  A table is well formed when every column has one value per row.
\<close>

definition wf_frame :: "dataframe \<Rightarrow> bool" where
  "wf_frame df = (\<forall>(name, vals)\<in>set (cols df). length vals = length (index df))"

text \<open>
  Step 3: a missing value is replaced by the median of its column over the batch, and by
  50 when the column has no value at all.  Step 4: the weighted sum of the filled scores
  over the intersected dimensions, divided by the sum of their weights.
\<close>

definition fill_median :: "real option list \<Rightarrow> real option list" where
  "fill_median cs = fillna (case median cs of None \<Rightarrow> 50 | Some m \<Rightarrow> m) cs"

definition filled_score :: "real option list \<Rightarrow> nat \<Rightarrow> real" where
  "filled_score cs i =
    (case cs ! i of
       Some s \<Rightarrow> s
     | None \<Rightarrow> (case median cs of Some m \<Rightarrow> m | None \<Rightarrow> 50))"

definition composite_index :: "profile \<Rightarrow> dataframe \<Rightarrow> string list \<Rightarrow> nat \<Rightarrow> real" where
  "composite_index ws df dims i =
     (\<Sum>d\<leftarrow>dims. filled_score (column df d) i * the (map_of ws d))
       / (\<Sum>d\<leftarrow>dims. the (map_of ws d))"

text \<open>
  A configuration whose analyst profile gives no weight to the economic dimension, with
  a table that scores only that dimension; and a table in which two labels normalize to
  the same name.
\<close>

definition zero_weight_config :: "(string \<times> profile) list" where
  "zero_weight_config = [(''analyst'', [(''economic'', 0), (''emissions'', 1)])]"

definition economic_only :: dataframe where
  "economic_only = \<lparr>index = [''India''], cols = [(''Economic'', [Some 50])]\<rparr>"

definition clashing_labels :: dataframe where
  "clashing_labels =
     \<lparr>index = [''India''], cols = [(''Economic'', [Some 50]), (''economic'', [Some 60])]\<rparr>"

subsection \<open>The invariant of the aggregator object\<close>

text \<open>
  \<open>self.weights\<close> is a dictionary, so its keys are distinct.  After \<open>__init__\<close> and after
  every method, the active weights are the profile stored under the active persona;
  the one exception is an object whose configuration has no \<open>analyst\<close> profile, whose
  active persona is \<open>analyst\<close> all the same.
\<close>

definition aggregator_inv :: "py_state \<Rightarrow> bool" where
  "aggregator_inv st \<longleftrightarrow>
     distinct (map fst (weights st)) \<and>
     (case map_of (weights st) (current_persona st) of
        Some w \<Rightarrow> current_weights st = w
      | None \<Rightarrow> current_persona st = ''analyst'')"

text \<open>The example aggregator after \<open>set_persona('investor')\<close>.\<close>

definition investor_state :: py_state where
  "investor_state = snd (set_persona ''investor'' example_state)"

section \<open>The composite aggregator in binary64 arithmetic\<close>

subsection \<open>Rounding\<close>





subsection \<open>\<open>compute_fvi\<close> with every arithmetic result rounded\<close>

text \<open>
  The definitions of this subsection repeat those of \<open>compute_fvi\<close> with one more argument,
  the rounding \<open>rnd\<close> applied to the result of each addition, multiplication and division.
  With \<open>rnd = fl64\<close> they compute what the interpreter computes; with the identity they are
  the definitions above.  A sum runs from left to right, starting from 0, as numpy sums
  fewer than eight numbers.
\<close>

definition radd :: "(real \<Rightarrow> real) \<Rightarrow> real \<Rightarrow> real \<Rightarrow> real" where
  "radd rnd acc x = rnd (acc + x)"

definition rsum :: "(real \<Rightarrow> real) \<Rightarrow> real list \<Rightarrow> real" where
  "rsum rnd xs = foldl (radd rnd) 0 xs"

definition median_with :: "(real \<Rightarrow> real) \<Rightarrow> real option list \<Rightarrow> real option" where
  "median_with rnd cs =
    (let xs = sort (List.map_filter id cs); n = length xs in
     if n = 0 then None
     else if odd n then Some (xs ! (n div 2))
     else Some (rnd (rnd (xs ! (n div 2 - 1) + xs ! (n div 2)) / 2)))"

definition true_div_with :: "(real \<Rightarrow> real) \<Rightarrow> real \<Rightarrow> real \<Rightarrow> xreal" where
  "true_div_with rnd x y =
    (if y \<noteq> 0 then Fin (rnd (x / y)) else if x > 0 then PInf else if x < 0 then MInf else NaN)"

fun fill_loop_with ::
  "(real \<Rightarrow> real) \<Rightarrow> string list \<Rightarrow> nat \<Rightarrow> py_state \<Rightarrow> (error + unit) \<times> py_state" where
  "fill_loop_with rnd [] a st = (Inr (), st)"
| "fill_loop_with rnd (col # rest) a st =
    (let df = heap st ! a in
     if length (filter (\<lambda>name. name = col) (map fst (cols df))) \<noteq> 1 then (Inl ValueError, st)
     else
       let median_val = (case median_with rnd (column df col) of None \<Rightarrow> 50 | Some m \<Rightarrow> m);
           df' = set_column col (fillna median_val (column df col)) df
       in fill_loop_with rnd rest a (st\<lparr>heap := (heap st)[a := df']\<rparr>))"

text \<open>
  One cell of \<open>self.scores_df[available_cols] * weights[available_cols]\<close>, one row of the
  quotient, and the series of all rows.
\<close>

definition weight_of :: "profile \<Rightarrow> string \<Rightarrow> real" where
  "weight_of ws col = the (map_of ws col)"

definition weighted_cell_with ::
  "(real \<Rightarrow> real) \<Rightarrow> dataframe \<Rightarrow> profile \<Rightarrow> nat \<Rightarrow> string \<Rightarrow> real" where
  "weighted_cell_with rnd df ws i col =
    (case column df col ! i of Some s \<Rightarrow> rnd (s * weight_of ws col) | None \<Rightarrow> 0)"

definition weighted_row_with ::
  "(real \<Rightarrow> real) \<Rightarrow> dataframe \<Rightarrow> profile \<Rightarrow> string list \<Rightarrow> real \<Rightarrow> nat
     \<Rightarrow> string \<times> real option" where
  "weighted_row_with rnd df ws available_cols weight_sum i =
    (index df ! i,
     clip_x 0 100
       (true_div_with rnd (rsum rnd (map (weighted_cell_with rnd df ws i) available_cols)) weight_sum))"

definition weighted_fvi_with ::
  "(real \<Rightarrow> real) \<Rightarrow> dataframe \<Rightarrow> profile \<Rightarrow> string list \<Rightarrow> series" where
  "weighted_fvi_with rnd df ws available_cols =
    map (weighted_row_with rnd df ws available_cols (rsum rnd (map (weight_of ws) available_cols)))
      [0..<length (index df)]"

definition compute_fvi_with ::
  "(real \<Rightarrow> real) \<Rightarrow> nat \<Rightarrow> py_state \<Rightarrow> (error + series) \<times> py_state" where
  "compute_fvi_with rnd ref st =
    (let scores = heap st ! ref in
     if empty_frame scores
     then (Inr [], st\<lparr>logged := logged st @ [(WARNING, ''Empty scores DataFrame provided'')]\<rparr>)
     else
       let a = length (heap st);
           st1 = st\<lparr>heap := heap st @ [scores], scores_df := Some a\<rparr>;
           st2 = st1\<lparr>heap := (heap st1)[a := rename_columns normalize_column_name (heap st1 ! a)]\<rparr>;
           ws = current_weights st2;
           available_cols = intersection (map fst (cols (heap st2 ! a))) (map fst ws)
       in if length available_cols = 0
          then (Inr [], st2\<lparr>logged := logged st2 @
                  [(ERROR, ''No overlapping scores for weighting''),
                   (ERROR, ''Available columns''),
                   (ERROR, ''Expected columns'')]\<rparr>)
          else
            (case fill_loop_with rnd available_cols a st2 of
               (Inl e, st3) \<Rightarrow> (Inl e, st3)
             | (Inr u, st3) \<Rightarrow>
                 (Inr (weighted_fvi_with rnd (heap st3 ! a) ws available_cols),
                  st3\<lparr>logged := logged st3 @ [(INFO, ''Computed FVI''), (INFO, ''Used dimensions'')]\<rparr>)))"

text \<open>
  The profile \<open>{dim: c * w for dim, w in profile.items()}\<close> with rounded products, and the
  profile of doubles that a dictionary of decimal literals denotes.
\<close>

definition scale_weight_with :: "(real \<Rightarrow> real) \<Rightarrow> real \<Rightarrow> string \<times> real \<Rightarrow> string \<times> real" where
  "scale_weight_with rnd c item = (fst item, rnd (c * snd item))"

definition scale_weights_with :: "(real \<Rightarrow> real) \<Rightarrow> real \<Rightarrow> profile \<Rightarrow> profile" where
  "scale_weights_with rnd c ws = map (scale_weight_with rnd c) ws"






section \<open>Raw datasets\<close>

text \<open>
  A raw dataset is a \<open>DataFrame\<close> with the default row index: its column labels and its
  rows, each row holding one cell per label.  A cell is a number, a text, or missing.
\<close>

datatype cell = Num real | Str string | NA

record table =
  labels :: "string list"
  rows :: "cell list list"










section \<open>Metric extractor: \<open>scores/resource.py\<close>\<close>












subsection \<open>What one dataset yields\<close>


subsection \<open>The libraries\<close>





subsection \<open>The extractor in the words of the specification\<close>














subsection \<open>Example datasets\<close>







section \<open>Resource scorer: \<open>scores/resource.py\<close>\<close>

definition W_PRODUCTION :: real where "W_PRODUCTION = 0.30"
definition W_RESERVES :: real where "W_RESERVES = 0.30"
definition W_RP :: real where "W_RP = 0.20"
definition W_LAND_SHARE :: real where "W_LAND_SHARE = 0.10"
definition W_WATER_SHARE :: real where "W_WATER_SHARE = 0.05"
definition W_PROD_SHARE :: real where "W_PROD_SHARE = 0.05"
definition CAP_PRODUCTION :: real where "CAP_PRODUCTION = 5000"
definition LOG_RES_MIN :: real where "LOG_RES_MIN = 2.0"
definition LOG_RES_MAX :: real where "LOG_RES_MAX = 6.0"
definition CAP_RP :: real where "CAP_RP = 200"

text \<open>
  \<open>_score_from_features(features)\<close>: the feature vector is a dictionary from metric name
  to number; \<open>comps\<close> collects one weighted contribution per feature present.
\<close>

definition score_from_features :: "(string \<times> real) list \<Rightarrow> real" where
  "score_from_features features =
    (let comps =
       (case map_of features ''production_mt'' of
          Some v \<Rightarrow> [normalize_score (Some v) 0 CAP_PRODUCTION 50 * W_PRODUCTION]
        | None \<Rightarrow> [])
       @ (case map_of features ''proven_reserves_mt'' of
            Some v \<Rightarrow>
              (let res = max 1 v;
                   res_log = log 10 res;
                   res_log' = max LOG_RES_MIN (min LOG_RES_MAX res_log)
               in [normalize_score (Some res_log') LOG_RES_MIN LOG_RES_MAX 50 * W_RESERVES])
          | None \<Rightarrow> [])
       @ (case map_of features ''r_p_ratio'' of
            Some v \<Rightarrow> (let rp = min v CAP_RP in [normalize_score (Some rp) 0 CAP_RP 50 * W_RP])
          | None \<Rightarrow> [])
       @ (case map_of features ''land_mined_share'' of
            Some v \<Rightarrow>
              (let v_pct = (if v \<le> 1 then v * 100 else v);
                   inv = max 0 (min 100 (100 - v_pct))
               in [inv * W_LAND_SHARE])
          | None \<Rightarrow> [])
       @ (case map_of features ''water_usage_share'' of
            Some v \<Rightarrow>
              (let v_pct = (if v \<le> 1 then v * 100 else v);
                   inv = max 0 (min 100 (100 - v_pct))
               in [inv * W_WATER_SHARE])
          | None \<Rightarrow> [])
       @ (case map_of features ''production_share'' of
            Some v \<Rightarrow>
              (let v_pct = (if v \<le> 1 then v * 100 else v)
               in [max 0 (min 100 v_pct) * W_PROD_SHARE])
          | None \<Rightarrow> [])
     in if comps = [] then 50
        else let total = sum_list comps in min 100 (max 0 total))"

section \<open>Infrastructure scorer: \<open>scores/infrastructure.py\<close>\<close>

text \<open>
  The row \<open>latest\<close> of \<open>_calculate_scores_for_dataset\<close>, as far as the scoring reads it:
  its numeric cells by label, a missing value being \<open>None\<close>.
\<close>

type_synonym num_row = "(string \<times> real option) list"

text \<open>\<open>score * 100 if score <= 1.0 else score\<close>.\<close>

definition to_percent :: "real \<Rightarrow> real" where
  "to_percent score = (if score \<le> 1 then score * 100 else score)"

text \<open>
  One block \<open>if '<label>' in latest.index: ...\<close> of the source: the converted score when
  the label is present and its value is not missing (the block then runs \<open>continue\<close>),
  and \<open>None\<close> when control falls to the next block.
\<close>

definition score_block :: "num_row \<Rightarrow> string \<Rightarrow> real option" where
  "score_block latest label =
    (case map_of latest label of
       Some (Some score) \<Rightarrow> Some (to_percent score)
     | _ \<Rightarrow> None)"

text \<open>The value stored in \<open>scores[country]\<close> for a country whose row is \<open>latest\<close>.\<close>

definition dataset_score :: "num_row \<Rightarrow> real" where
  "dataset_score latest =
    (case score_block latest ''coal_dependency_score'' of Some s \<Rightarrow> s | None \<Rightarrow>
     (case score_block latest ''transition_feasibility_score'' of Some s \<Rightarrow> s | None \<Rightarrow>
      (case score_block latest ''hazard_score'' of Some s \<Rightarrow> s | None \<Rightarrow>
       (case score_block latest ''reclamation_potential_score'' of Some s \<Rightarrow> s | None \<Rightarrow>
        (case score_block latest ''root_cause_score'' of Some s \<Rightarrow> s | None \<Rightarrow>
         (case map_of latest ''electricity_coal_pct'' of
            Some (Some coal_pct) \<Rightarrow> coal_pct
          | _ \<Rightarrow> 50))))))"

text \<open>
  \<open>_calculate_scores_for_dataset\<close>.  The pandas selection of a country's row (the latest
  data, the search for a country column, the match by name or by standardized name) is
  taken as the parameter \<open>country_data\<close>: \<open>country_data country\<close> is the row
  \<open>country_data.iloc[-1]\<close>, or \<open>None\<close> when no row matches; \<open>has_country_col\<close> tells
  whether a country column was found.  \<open>scores\<close> is a dictionary.
\<close>

definition calculate_scores_for_dataset ::
  "bool \<Rightarrow> (string \<Rightarrow> num_row option) \<Rightarrow> string list \<Rightarrow> (string \<times> real) list" where
  "calculate_scores_for_dataset has_country_col country_data country_list =
    (if \<not> has_country_col then []
     else fold (\<lambda>country scores.
            AList.update country
              (case country_data country of
                 Some latest \<Rightarrow> dataset_score latest
               | None \<Rightarrow> 50)
              scores)
          country_list [])"

definition fallback_infrastructure_scores :: "string list \<Rightarrow> (string \<times> real) list" where
  "fallback_infrastructure_scores country_list =
    (let country_list' =
           (if country_list = []
            then [''India'', ''China'', ''Germany'', ''USA'', ''Australia'', ''Indonesia'',
                  ''South Africa'', ''Poland'']
            else country_list);
         fallback_scores =
           [(''India'', 65), (''China'', 75), (''Germany'', 35), (''USA'', 45),
            (''Australia'', 60), (''Indonesia'', 70), (''South Africa'', 80), (''Poland'', 55)]
     in fold (\<lambda>country scores. AList.update country (dict_get fallback_scores country 55) scores)
          country_list' [])"

definition component_weights :: "(string \<times> real) list" where
  "component_weights =
    [(''coal_dependency'', 0.25), (''transition_readiness'', 0.20),
     (''environmental_impact'', 0.20), (''infrastructure_quality'', 0.20),
     (''policy_framework'', 0.15)]"

text \<open>
  \<open>_aggregate_infrastructure_scores\<close>: \<open>component_scores\<close> maps a component (or dataset)
  name to its series of scores by country.
\<close>

definition aggregate_infrastructure_scores ::
  "(string \<times> (string \<times> real) list) list \<Rightarrow> string list \<Rightarrow> (string \<times> real) list" where
  "aggregate_infrastructure_scores component_scores country_list =
    (if component_scores = [] then fallback_infrastructure_scores country_list
     else fold (\<lambda>country final_scores.
            let country_component_scores =
                  List.map_filter (\<lambda>(component, scores).
                      map_option (Pair component) (map_of scores country)) component_scores
            in AList.update country
                 (if country_component_scores \<noteq> []
                  then
                    let weighted_sum = sum_list (map (\<lambda>(component, score).
                            score * dict_get component_weights component
                                      (1 / real (length component_scores)))
                          country_component_scores);
                        total_weight = sum_list (map (\<lambda>(component, score).
                            dict_get component_weights component
                              (1 / real (length component_scores)))
                          country_component_scores)
                    in if total_weight > 0 then weighted_sum / total_weight else 50
                  else 50)
                 final_scores)
          country_list [])"

subsection \<open>A dataset with a score above the scale\<close>

definition hazard_rows :: "string \<Rightarrow> num_row option" where
  "hazard_rows country = (if country = ''India'' then Some [(''hazard_score'', Some 150)] else None)"

definition dependency_rows :: "string \<Rightarrow> num_row option" where
  "dependency_rows country =
     (if country = ''India'' then Some [(''coal_dependency_score'', Some (- 0.5))] else None)"

section \<open>Evaluation rules for concrete inputs\<close>

lemmas str_eval = strip_def is_space_def whitespace_def upper_def upper_char_def
  lower_def lower_char_def ascii_lowercase_def ascii_uppercase_def replace_char_def

lemmas ns_eval = normalize_series_def dropna_indexed_def scale_values_def
  min_max_scale_def smin_def smax_def upt_rec map_filter_simps is_integer_def


section \<open>Country identity resolver\<close>

lemma distinct_COUNTRY_MAPPING: "distinct (map fst COUNTRY_MAPPING)"
  by (simp add: COUNTRY_MAPPING_def)

lemma distinct_aliases: "distinct (map fst aliases)"
  by (simp add: aliases_def)

text \<open>
  Claim C9.  \<open>standardize_country_name\<close> returns \<open>None\<close> exactly for \<open>None\<close> and for a
  missing value.  For a string it returns a string: the canonical name when the
  upper-cased, trimmed input is a key of \<open>COUNTRY_MAPPING\<close>; otherwise the alias target
  when the trimmed input is a key of \<open>aliases\<close>; otherwise the trimmed input itself.  The
  function is total: no input of its type makes it raise.
\<close>

theorem standardize_country_name_total:
  "(standardize_country_name n = None \<longleftrightarrow> n = PyNone \<or> n = PyNaN)
   \<and> (\<forall>s c. (upper (strip s), c) \<in> set COUNTRY_MAPPING
          \<longrightarrow> standardize_country_name (PyStr s) = Some c)
   \<and> (\<forall>s c. upper (strip s) \<notin> fst ` set COUNTRY_MAPPING \<longrightarrow> (strip s, c) \<in> set aliases
          \<longrightarrow> standardize_country_name (PyStr s) = Some c)
   \<and> (\<forall>s. upper (strip s) \<notin> fst ` set COUNTRY_MAPPING \<longrightarrow> strip s \<notin> fst ` set aliases
          \<longrightarrow> standardize_country_name (PyStr s) = Some (strip s))"
proof (intro conjI allI impI)
  show "standardize_country_name n = None \<longleftrightarrow> n = PyNone \<or> n = PyNaN"
    by (cases n) (auto simp: standardize_country_name_def Let_def split: option.splits)
next
  fix s c
  assume "(upper (strip s), c) \<in> set COUNTRY_MAPPING"
  then have "map_of COUNTRY_MAPPING (upper (strip s)) = Some c"
    using distinct_COUNTRY_MAPPING by simp
  then show "standardize_country_name (PyStr s) = Some c"
    by (simp add: standardize_country_name_def)
next
  fix s c
  assume "upper (strip s) \<notin> fst ` set COUNTRY_MAPPING" and "(strip s, c) \<in> set aliases"
  then have "map_of COUNTRY_MAPPING (upper (strip s)) = None"
    and "map_of aliases (strip s) = Some c"
    using distinct_aliases by (simp_all add: map_of_eq_None_iff)
  then show "standardize_country_name (PyStr s) = Some c"
    by (simp add: standardize_country_name_def dict_get_def)
next
  fix s
  assume "upper (strip s) \<notin> fst ` set COUNTRY_MAPPING" and "strip s \<notin> fst ` set aliases"
  then have "map_of COUNTRY_MAPPING (upper (strip s)) = None"
    and "map_of aliases (strip s) = None"
    by (simp_all add: map_of_eq_None_iff)
  then show "standardize_country_name (PyStr s) = Some (strip s)"
    by (simp add: standardize_country_name_def dict_get_def)
qed

theorem standardize_country_name_total_witness:
  "standardize_country_name PyNaN = None
   \<and> standardize_country_name (PyStr '' usa '') = Some ''United States''
   \<and> standardize_country_name (PyStr ''UK '') = Some ''United Kingdom''
   \<and> standardize_country_name (PyStr '' Atlantis'') = Some ''Atlantis''"
proof -
  note t = standardize_country_name_total [of PyNaN]
  have iso: "(upper (strip '' usa ''), ''United States'') \<in> set COUNTRY_MAPPING"
    by (simp add: str_eval COUNTRY_MAPPING_def)
  have uk: "upper (strip ''UK '') \<notin> fst ` set COUNTRY_MAPPING"
      "(strip ''UK '', ''United Kingdom'') \<in> set aliases"
    by (simp_all add: str_eval COUNTRY_MAPPING_def aliases_def)
  have atl: "upper (strip '' Atlantis'') \<notin> fst ` set COUNTRY_MAPPING"
      "strip '' Atlantis'' \<notin> fst ` set aliases" "strip '' Atlantis'' = ''Atlantis''"
    by (simp_all add: str_eval COUNTRY_MAPPING_def aliases_def)
  from t iso uk atl show ?thesis by auto
qed

section \<open>Series normalizer\<close>

lemma smin_Min: "xs \<noteq> [] \<Longrightarrow> smin xs = Min (set xs)"
  by (cases xs) (simp_all add: smin_def Min.set_eq_fold [symmetric] del: set_simps)

lemma smax_Max: "xs \<noteq> [] \<Longrightarrow> smax xs = Max (set xs)"
  by (cases xs) (simp_all add: smax_def Max.set_eq_fold [symmetric] del: set_simps)

lemma snd_dropna_from: "set (map snd (dropna_from i cs)) = {x. Some x \<in> set cs}"
  by (induction i cs rule: dropna_from.induct) auto

lemma const_scaled_lookup:
  assumes "map_of (zip ks vs) i = Some v" and "\<forall>w\<in>set vs. w = c"
  shows "v = c"
proof -
  from assms(1) have "(i, v) \<in> set (zip ks vs)" by (rule map_of_SomeD)
  then have "v \<in> set vs" by (rule set_zip_rightD)
  with assms(2) show ?thesis by simp
qed

lemma min_max_scale_degenerate:
  assumes "\<forall>x\<in>set xs. \<forall>y\<in>set xs. x = y"
  shows "min_max_scale xs = map (\<lambda>_. Some 50) xs"
proof (cases "xs = []")
  case True
  then show ?thesis by (simp add: min_max_scale_def Let_def)
next
  case False
  then have "Min (set xs) \<in> set xs" "Max (set xs) \<in> set xs" by simp_all
  with assms have "Min (set xs) = Max (set xs)" by blast
  with False show ?thesis by (simp add: min_max_scale_def smin_Min smax_Max)
qed

lemma map_of_zip_map:
  "map_of (zip ks (map f vs)) k = map_option f (map_of (zip ks vs) k)"
proof (induction ks arbitrary: vs)
  case Nil
  then show ?case by simp
next
  case (Cons a ks)
  then show ?case by (cases vs) simp_all
qed

text \<open>
  Claim C6.  When all numbers of a series are equal, or the series holds no number at
  all, min-max normalization returns 50 at every position, in either direction, and
  nothing is divided.  \<open>normalize_score\<close> with \<open>min_val = max_val\<close> returns its default.
\<close>

theorem degenerate_range_is_neutral:
  assumes "\<forall>x y. Some x \<in> set series \<longrightarrow> Some y \<in> set series \<longrightarrow> x = y"
  shows "normalize_series lossy_setitem_raises series higher_is_better ''min_max''
           = Inr (replicate (length series) 50)
       \<and> normalize_score v bound bound dflt = dflt"
proof
  let ?s = "dropna_indexed series"
  let ?xs = "map snd ?s"
  define sc where "sc = map (\<lambda>_. Some (50::real)) ?xs"
  define sc' where "sc' = (if \<not> higher_is_better then map (map_option (\<lambda>v. 100 - v)) sc else sc)"
  have eq: "\<forall>x\<in>set ?xs. \<forall>y\<in>set ?xs. x = y"
    using assms unfolding dropna_indexed_def snd_dropna_from by blast
  have scale: "scale_values ''min_max'' ?xs = Inr sc"
    using min_max_scale_degenerate [OF eq] by (simp add: scale_values_def sc_def)
  have all50: "\<forall>w\<in>set sc'. w = Some 50"
    by (auto simp: sc'_def sc_def)
  have cell: "(case map_of (zip (map fst ?s) sc') i of Some (Some v) \<Rightarrow> v | _ \<Rightarrow> 50) = 50" for i
    using const_scaled_lookup [OF _ all50] by (fastforce split: option.splits)
  have "v = 50" if "v \<in> set (List.map_filter snd (zip (map fst ?s) sc'))" for v
  proof -
    from that obtain k where "(k, Some v) \<in> set (zip (map fst ?s) sc')"
      by (auto simp: map_filter_def)
    then have "Some v \<in> set sc'" by (rule set_zip_rightD)
    with all50 show ?thesis by auto
  qed
  moreover have "is_integer 50" by (simp add: is_integer_def)
  ultimately have whole: "list_all is_integer (List.map_filter snd (zip (map fst ?s) sc'))"
    unfolding list_all_iff by blast
  have "normalize_series lossy_setitem_raises series higher_is_better ''min_max''
          = Inr (map (\<lambda>i. 50) [0..<length series])"
    unfolding normalize_series_def Let_def scale sum.case sc'_def [symmetric] cell
    using whole by (simp add: map_replicate_const)
  then show "normalize_series lossy_setitem_raises series higher_is_better ''min_max''
               = Inr (replicate (length series) 50)"
    by (simp add: map_replicate_const)
next
  show "normalize_score v bound bound dflt = dflt"
    by (simp add: normalize_score_def split: option.splits)
qed

theorem degenerate_range_is_neutral_witness:
  "normalize_series True [Some 7, None, Some 7] False ''min_max'' = Inr [50, 50, 50]
   \<and> normalize_series False [None, None] True ''min_max'' = Inr [50, 50]
   \<and> normalize_score (Some 3) 5 5 50 = 50"
proof -
  have a: "\<forall>x y. Some x \<in> set [Some (7::real), None, Some 7] \<longrightarrow>
             Some y \<in> set [Some (7::real), None, Some 7] \<longrightarrow> x = y"
    by simp
  have b: "\<forall>x y. Some x \<in> set [None, None :: real option] \<longrightarrow>
             Some y \<in> set [None, None :: real option] \<longrightarrow> x = y"
    by simp
  from degenerate_range_is_neutral [OF a, of True False "Some 3" 5 50]
    degenerate_range_is_neutral [OF b, of False True "Some 3" 5 50]
  show ?thesis by (simp add: numeral_eq_Suc)
qed

text \<open>
  Outside the degenerate case \<open>normalize_series\<close> writes fractions into its series of
  integers.  On the numbers \<open>0, 10, 40\<close> it returns \<open>0, 25, 100\<close> with
  \<open>higher_is_better = True\<close> and \<open>100, 75, 0\<close> with \<open>higher_is_better = False\<close>; on
  \<open>0, 15, 40\<close> the second scaled value is \<open>37.5\<close>, which pandas 3 refuses to write.
\<close>

lemma normalize_series_examples:
  "normalize_series True [Some 0, Some 10, Some 40] True ''min_max'' = Inr [0, 25, 100]
   \<and> normalize_series True [Some 0, Some 10, Some 40] False ''min_max'' = Inr [100, 75, 0]
   \<and> normalize_series False [Some 0, Some 15, Some 40] True ''min_max'' = Inr [0, 75/2, 100]
   \<and> normalize_series True [Some 0, Some 15, Some 40] True ''min_max'' = Inl TypeError"
  by (simp add: ns_eval)

section \<open>Directional normalizer of the dimension pipelines\<close>

lemma length_dropna_map: "length (dropna (map (map_option f) s)) = length (dropna s)"
  by (induction s) (auto simp: dropna_def map_filter_simps split: option.splits)

lemma dropna_map_Nil: "dropna (map (map_option f) s) = [] \<longleftrightarrow> dropna s = []"
  using length_dropna_map [of f s] by (metis length_0_conv)


lemma unit_scale_code:
  assumes "dropna s \<noteq> []"
  shows "unit_scale s =
    (let mi = smin (dropna s); ma = smax (dropna s)
     in if ma \<noteq> mi then map (map_option (\<lambda>x. (x - mi) / (ma - mi))) s
        else replicate (length s) (Some (1/2)))"
  using assms by (auto simp: unit_scale_def Let_def smin_Min smax_Max map_replicate_const)




text \<open>
  In exact arithmetic \<open>100 * (1 - x) = 100 - 100 * x\<close>: the result for a higher-is-better
  metric is the result for a higher-is-worse metric subtracted from 100.  In floating
  point the two sides can differ in the last bit.
\<close>

lemma inversion_on_percent_scale:
  "normalize_metric series False method
     = map (map_option (\<lambda>y. 100 - y)) (normalize_metric series True method)"
proof -
  have "normalize_metric series False method
          = map (map_option (\<lambda>x. 100 * (1 - x))) (scaled_value series method)"
    and "normalize_metric series True method
          = map (map_option (\<lambda>x. 100 * x)) (scaled_value series method)"
    by (simp_all add: normalize_metric_def scaled_value_def unit_scale_code z_scores_def
        dropna_map_Nil Let_def map_replicate_const option.map_comp comp_def)
  then show ?thesis by (simp add: option.map_comp comp_def algebra_simps)
qed

section \<open>Composite aggregator\<close>

subsection \<open>Frame properties of the fill loop\<close>

lemma fill_loop_fields:
  "weights (snd (fill_loop cs a st)) = weights st
   \<and> current_persona (snd (fill_loop cs a st)) = current_persona st
   \<and> current_weights (snd (fill_loop cs a st)) = current_weights st
   \<and> scores_df (snd (fill_loop cs a st)) = scores_df st
   \<and> logged (snd (fill_loop cs a st)) = logged st
   \<and> length (heap (snd (fill_loop cs a st))) = length (heap st)"
  by (induction cs a st rule: fill_loop.induct) (simp_all add: Let_def)

lemma fill_loop_other:
  "r \<noteq> a \<Longrightarrow> heap (snd (fill_loop cs a st)) ! r = heap st ! r"
  by (induction cs a st rule: fill_loop.induct) (simp_all add: Let_def)

lemma compute_fvi_unfold:
  "compute_fvi ref st =
    (if empty_frame (heap st ! ref)
     then (Inr [], st\<lparr>logged := logged st @ [(WARNING, ''Empty scores DataFrame provided'')]\<rparr>)
     else if available (current_weights st) (heap st ! ref) = []
     then (Inr [], (renamed_copy ref st)\<lparr>logged := logged st @
                  [(ERROR, ''No overlapping scores for weighting''),
                   (ERROR, ''Available columns''),
                   (ERROR, ''Expected columns'')]\<rparr>)
     else
       (case fill_loop (available (current_weights st) (heap st ! ref)) (length (heap st))
               (renamed_copy ref st) of
          (Inl e, st3) \<Rightarrow> (Inl e, st3)
        | (Inr u, st3) \<Rightarrow>
            (Inr (weighted_fvi (heap st3 ! length (heap st)) (current_weights st)
                    (available (current_weights st) (heap st ! ref))),
             st3\<lparr>logged := logged st3 @ [(INFO, ''Computed FVI''), (INFO, ''Used dimensions'')]\<rparr>)))"
  by (simp add: compute_fvi_def renamed_copy_def available_def Let_def
        cong: prod.case_cong sum.case_cong)

lemma renamed_copy_simps:
  "weights (renamed_copy ref st) = weights st"
  "current_persona (renamed_copy ref st) = current_persona st"
  "current_weights (renamed_copy ref st) = current_weights st"
  "logged (renamed_copy ref st) = logged st"
  "scores_df (renamed_copy ref st) = Some (length (heap st))"
  "length (heap (renamed_copy ref st)) = Suc (length (heap st))"
  "r < length (heap st) \<Longrightarrow> heap (renamed_copy ref st) ! r = heap st ! r"
  "heap (renamed_copy ref st) ! length (heap st) = rename_columns normalize_column_name (heap st ! ref)"
  by (simp_all add: renamed_copy_def nth_append)

lemma compute_fvi_fields:
  "weights (snd (compute_fvi ref st)) = weights st
   \<and> current_persona (snd (compute_fvi ref st)) = current_persona st
   \<and> current_weights (snd (compute_fvi ref st)) = current_weights st
   \<and> length (heap st) \<le> length (heap (snd (compute_fvi ref st)))"
proof -
  obtain r st3 where f: "fill_loop (available (current_weights st) (heap st ! ref)) (length (heap st))
               (renamed_copy ref st) = (r, st3)"
    by fastforce
  from fill_loop_fields [of "available (current_weights st) (heap st ! ref)" "length (heap st)"
      "renamed_copy ref st"] f
  have "weights st3 = weights st" "current_persona st3 = current_persona st"
    "current_weights st3 = current_weights st" "length (heap st3) = Suc (length (heap st))"
    by (simp_all add: renamed_copy_simps)
  then show ?thesis
    by (cases r) (simp_all add: compute_fvi_unfold f renamed_copy_simps)
qed

lemma compute_fvi_heap:
  assumes "r < length (heap st)"
  shows "heap (snd (compute_fvi ref st)) ! r = heap st ! r"
proof -
  obtain res st3 where f: "fill_loop (available (current_weights st) (heap st ! ref)) (length (heap st))
               (renamed_copy ref st) = (res, st3)"
    by fastforce
  have ne: "r \<noteq> length (heap st)" using assms by simp
  from fill_loop_other [OF ne, of "available (current_weights st) (heap st ! ref)" "renamed_copy ref st"] f
  have "heap st3 ! r = heap st ! r"
    using assms by (simp add: renamed_copy_simps)
  then show ?thesis
    using assms by (cases res) (simp_all add: compute_fvi_unfold f renamed_copy_simps)
qed

text \<open>
  Claim C10.  \<open>compute_fvi\<close> leaves the caller's table, and every other table that
  existed before the call, as it was: renaming and filling happen on a copy at a fresh
  address, which is what \<open>self.scores_df\<close> refers to afterwards.
\<close>

theorem compute_fvi_keeps_caller_frame:
  assumes "ref < length (heap st)"
  shows "heap (snd (compute_fvi ref st)) ! ref = heap st ! ref
       \<and> (\<forall>r<length (heap st). heap (snd (compute_fvi ref st)) ! r = heap st ! r)
       \<and> (\<not> empty_frame (heap st ! ref)
            \<longrightarrow> scores_df (snd (compute_fvi ref st)) = Some (length (heap st)))"
proof (intro conjI allI impI)
  show "heap (snd (compute_fvi ref st)) ! ref = heap st ! ref"
    using assms by (rule compute_fvi_heap)
next
  fix r assume "r < length (heap st)"
  then show "heap (snd (compute_fvi ref st)) ! r = heap st ! r"
    by (rule compute_fvi_heap)
next
  assume ne: "\<not> empty_frame (heap st ! ref)"
  obtain res st3 where f: "fill_loop (available (current_weights st) (heap st ! ref)) (length (heap st))
               (renamed_copy ref st) = (res, st3)"
    by fastforce
  from fill_loop_fields [of "available (current_weights st) (heap st ! ref)" "length (heap st)"
      "renamed_copy ref st"] f
  have "scores_df st3 = Some (length (heap st))"
    by (simp add: renamed_copy_simps)
  then show "scores_df (snd (compute_fvi ref st)) = Some (length (heap st))"
    using ne by (cases res) (simp_all add: compute_fvi_unfold f renamed_copy_simps)
qed

theorem compute_fvi_keeps_caller_frame_witness:
  "heap (snd (compute_fvi 0 example_state)) ! 0 = example_scores
   \<and> heap (snd (compute_fvi 0 example_state)) ! 1 =
       \<lparr>index = [''India'', ''China''],
        cols = [(''economic'', [Some 60, Some 60]), (''emissions'', [Some 20, Some 80]),
                (''other_col'', [None, None])]\<rparr>
   \<and> scores_df (snd (compute_fvi 0 example_state)) = Some 1"
proof -
  have len: "0 < length (heap example_state)" "length (heap example_state) = 1"
    "heap example_state ! 0 = example_scores"
    by (simp_all add: example_state_def init_def Let_def)
  have ne: "\<not> empty_frame (heap example_state ! 0)"
    by (simp add: len empty_frame_def example_scores_def)
  have copy: "heap (snd (compute_fvi 0 example_state)) ! 1 =
       \<lparr>index = [''India'', ''China''],
        cols = [(''economic'', [Some 60, Some 60]), (''emissions'', [Some 20, Some 80]),
                (''other_col'', [None, None])]\<rparr>"
    by code_simp
  from compute_fvi_keeps_caller_frame [OF len(1)] ne copy len show ?thesis
    by simp
qed

text \<open>
  Claim C3, as amended.  When no column label, after normalization, is a key of the
  active profile, \<open>compute_fvi\<close> returns the empty series.  If the table is not empty
  the three messages of the mismatch are logged as errors; an empty table is answered
  by the first guard, which logs a warning.
\<close>

theorem no_overlap_gives_empty_series:
  assumes "available (current_weights st) (heap st ! ref) = []"
  shows "fst (compute_fvi ref st) = Inr []
       \<and> (\<not> empty_frame (heap st ! ref) \<longrightarrow>
            logged (snd (compute_fvi ref st)) = logged st @
              [(ERROR, ''No overlapping scores for weighting''), (ERROR, ''Available columns''),
               (ERROR, ''Expected columns'')])
       \<and> (empty_frame (heap st ! ref) \<longrightarrow>
            logged (snd (compute_fvi ref st)) = logged st @
              [(WARNING, ''Empty scores DataFrame provided'')])"
  using assms by (simp add: compute_fvi_unfold)

theorem no_overlap_gives_empty_series_witness:
  "fst (compute_fvi 0 (init [] [foreign_scores])) = Inr []
   \<and> logged (snd (compute_fvi 0 (init [] [foreign_scores]))) =
       [(INFO, ''FVI Aggregator initialized''),
        (ERROR, ''No overlapping scores for weighting''), (ERROR, ''Available columns''),
        (ERROR, ''Expected columns'')]"
proof -
  have a: "available (current_weights (init [] [foreign_scores])) (heap (init [] [foreign_scores]) ! 0) = []"
    by code_simp
  have b: "\<not> empty_frame (heap (init [] [foreign_scores]) ! 0)"
    by code_simp
  have c: "logged (init [] [foreign_scores]) = [(INFO, ''FVI Aggregator initialized'')]"
    by (simp add: init_def Let_def)
  from no_overlap_gives_empty_series [OF a] b c show ?thesis by simp
qed

text \<open>
  The claim as written fails on an empty table: a table with the single column \<open>foo\<close>
  and no row has no label in common with the analyst profile, the result is the empty
  series, but the only message logged by the call is a warning.
\<close>

theorem no_overlap_claim_counterexample:
  "available (current_weights (init [] [no_rows])) (heap (init [] [no_rows]) ! 0) = []
   \<and> fst (compute_fvi 0 (init [] [no_rows])) = Inr []
   \<and> logged (snd (compute_fvi 0 (init [] [no_rows]))) =
       [(INFO, ''FVI Aggregator initialized''), (WARNING, ''Empty scores DataFrame provided'')]
   \<and> ERROR \<notin> fst ` set (logged (snd (compute_fvi 0 (init [] [no_rows]))))"
  by code_simp

subsection \<open>Scaling the weights\<close>





lemma available_subset_keys: "set (available ws df) \<subseteq> set (map fst ws)"
  by (auto simp: available_def intersection_def)







subsection \<open>The same computation in binary64\<close>

lemma rsum_id: "rsum (\<lambda>x. x) xs = sum_list xs"
proof -
  have "foldl (radd (\<lambda>x. x)) a xs = a + sum_list xs" for a
    by (induction xs arbitrary: a) (simp_all add: radd_def)
  from this [of 0] show ?thesis by (simp add: rsum_def)
qed

lemma median_with_id: "median_with (\<lambda>x. x) cs = median cs"
  by (simp add: median_with_def median_def)

lemma fill_loop_with_id: "fill_loop_with (\<lambda>x. x) cs a st = fill_loop cs a st"
  by (induction cs arbitrary: st) (simp_all add: median_with_id Let_def)

lemma weighted_fvi_with_id: "weighted_fvi_with (\<lambda>x. x) df ws cs = weighted_fvi df ws cs"
  unfolding weighted_fvi_with_def weighted_fvi_def weighted_row_with_def [abs_def]
    weighted_cell_with_def [abs_def] weight_of_def [abs_def] rsum_id
    true_div_with_def [abs_def] true_div_def [abs_def] Let_def
  by (rule refl)

text \<open>With the identity for rounding, the rounded definitions are the exact ones.\<close>

lemma compute_fvi_with_id: "compute_fvi_with (\<lambda>x. x) ref st = compute_fvi ref st"
  unfolding compute_fvi_with_def compute_fvi_def fill_loop_with_id weighted_fvi_with_id
  by (rule refl)

lemma scale_weights_with_id: "scale_weights_with (\<lambda>x. x) c ws = scale_weights c ws"
  by (simp add: scale_weights_with_def scale_weights_def scale_weight_with_def case_prod_beta)


subsection \<open>What the fill loop computes\<close>

lemma map_of_replace:
  "map_of (map (\<lambda>(name, old). if name = col then (name, vals) else (name, old)) xs) c
     = (if c = col then map_option (\<lambda>_. vals) (map_of xs c) else map_of xs c)"
  by (induction xs) auto

lemma names_set_column: "map fst (cols (set_column col vals df)) = map fst (cols df)"
  by (simp add: set_column_def split_def comp_def if_distrib cong: if_cong)

lemma index_set_column: "index (set_column col vals df) = index df"
  by (simp add: set_column_def)

lemma column_set_column:
  assumes "col \<in> set (map fst (cols df))"
  shows "column (set_column col vals df) c = (if c = col then vals else column df c)"
proof -
  from assms have "map_of (cols df) col \<noteq> None"
    by (simp add: map_of_eq_None_iff)
  then obtain old where "map_of (cols df) col = Some old" by blast
  then show ?thesis
    by (simp add: column_def set_column_def map_of_replace)
qed

lemma fillna_no_missing:
  assumes "None \<notin> set cs"
  shows "fillna v cs = cs"
  unfolding fillna_def
proof (rule map_idI)
  fix x assume "x \<in> set cs"
  with assms have "x \<noteq> None" by metis
  then show "(case x of None \<Rightarrow> Some v | Some x \<Rightarrow> Some x) = x" by (cases x) simp_all
qed

lemma fillna_complete: "None \<notin> set (fillna v cs)"
  by (auto simp: fillna_def split: option.splits)

lemma fill_median_idem: "fill_median (fill_median cs) = fill_median cs"
proof -
  have "None \<notin> set (fill_median cs)"
    unfolding fill_median_def by (rule fillna_complete)
  then show ?thesis
    unfolding fill_median_def [of "fill_median cs"] by (rule fillna_no_missing)
qed

lemma fill_median_nth:
  "i < length cs \<Longrightarrow> fill_median cs ! i = Some (filled_score cs i)"
  by (simp add: fill_median_def fillna_def filled_score_def split: option.splits)

lemma counted_once_member:
  assumes "length (filter (\<lambda>name. name = c) names) = 1"
  shows "c \<in> set names"
proof (rule ccontr)
  assume "c \<notin> set names"
  then have "filter (\<lambda>name. name = c) names = []" unfolding filter_empty_conv by blast
  with assms show False by simp
qed


lemma fill_loop_result:
  assumes "a < length (heap st)"
    and "\<forall>c\<in>set cs. length (filter (\<lambda>name. name = c) (map fst (cols (heap st ! a)))) = 1"
  shows "fst (fill_loop cs a st) = Inr ()
       \<and> index (heap (snd (fill_loop cs a st)) ! a) = index (heap st ! a)
       \<and> (\<forall>c. column (heap (snd (fill_loop cs a st)) ! a) c
              = (if c \<in> set cs then fill_median (column (heap st ! a) c)
                 else column (heap st ! a) c))"
  using assms
proof (induction cs arbitrary: st)
  case Nil
  then show ?case by simp
next
  case (Cons col rest)
  let ?df = "heap st ! a"
  let ?df' = "set_column col (fill_median (column ?df col)) ?df"
  let ?st' = "st\<lparr>heap := (heap st)[a := ?df']\<rparr>"
  from Cons.prems have once: "length (filter (\<lambda>name. name = col) (map fst (cols ?df))) = 1"
    by simp
  then have mem: "col \<in> set (map fst (cols ?df))" by (rule counted_once_member)
  have step: "fill_loop (col # rest) a st = fill_loop rest a ?st'"
    using once by (simp add: Let_def fill_median_def)
  have at: "heap ?st' ! a = ?df'" and len: "a < length (heap ?st')"
    using Cons.prems(1) by simp_all
  have "\<forall>c\<in>set rest. length (filter (\<lambda>name. name = c) (map fst (cols (heap ?st' ! a)))) = 1"
    using Cons.prems(2) unfolding at names_set_column by simp
  from Cons.IH [OF len this]
  have ih: "fst (fill_loop rest a ?st') = Inr ()"
    "index (heap (snd (fill_loop rest a ?st')) ! a) = index ?df'"
    "\<And>c. column (heap (snd (fill_loop rest a ?st')) ! a) c
              = (if c \<in> set rest then fill_median (column ?df' c) else column ?df' c)"
    unfolding at by simp_all
  show ?case
    unfolding step
    by (simp add: ih index_set_column column_set_column [OF mem] fill_median_idem)
qed

subsection \<open>The weighted mean\<close>

lemma wf_rename_columns: "wf_frame df \<Longrightarrow> wf_frame (rename_columns f df)"
  by (auto simp: wf_frame_def rename_columns_def)

lemma index_rename_columns: "index (rename_columns f df) = index df"
  by (simp add: rename_columns_def)

lemma wf_column_length:
  assumes "wf_frame df" and "c \<in> set (map fst (cols df))"
  shows "length (column df c) = length (index df)"
proof -
  from assms(2) have "map_of (cols df) c \<noteq> None"
    by (simp add: map_of_eq_None_iff)
  then obtain vals where v: "map_of (cols df) c = Some vals" by blast
  then have "(c, vals) \<in> set (cols df)" by (rule map_of_SomeD)
  with assms(1) have "length vals = length (index df)"
    by (auto simp: wf_frame_def)
  with v show ?thesis by (simp add: column_def)
qed

lemma set_unique: "set (unique xs) = set xs"
  by (simp add: unique_def)

lemma available_subset_labels:
  "set (available ws df) \<subseteq> set (map fst (cols (rename_columns normalize_column_name df)))"
  by (auto simp: available_def intersection_def set_unique)

lemma clip_range: "lo \<le> hi \<Longrightarrow> lo \<le> clip lo hi x \<and> clip lo hi x \<le> hi"
  by (simp add: clip_def)

lemma weighted_fvi_filled:
  assumes wf: "wf_frame renamed"
    and labels: "set dims \<subseteq> set (map fst (cols renamed))"
    and idx: "index filled = index renamed"
    and cols: "\<And>c. c \<in> set dims \<Longrightarrow> column filled c = fill_median (column renamed c)"
    and total: "(\<Sum>d\<leftarrow>dims. the (map_of ws d)) \<noteq> 0"
  shows "weighted_fvi filled ws dims
       = map (\<lambda>i. (index renamed ! i, Some (clip 0 100 (composite_index ws renamed dims i))))
           [0..<length (index renamed)]"
proof -
  have num: "(\<Sum>col\<leftarrow>dims. case column filled col ! i of
                  Some s \<Rightarrow> s * the (map_of ws col) | None \<Rightarrow> 0)
        = (\<Sum>d\<leftarrow>dims. filled_score (column renamed d) i * the (map_of ws d))"
    if i: "i < length (index renamed)" for i
  proof -
    have "map (\<lambda>col. case column filled col ! i of
                  Some s \<Rightarrow> s * the (map_of ws col) | None \<Rightarrow> 0) dims
        = map (\<lambda>d. filled_score (column renamed d) i * the (map_of ws d)) dims"
    proof (intro map_cong refl)
      fix c assume c: "c \<in> set dims"
      with labels have "c \<in> set (map fst (cols renamed))" by auto
      with wf have "length (column renamed c) = length (index renamed)"
        by (rule wf_column_length)
      with i have "fill_median (column renamed c) ! i = Some (filled_score (column renamed c) i)"
        by (simp add: fill_median_nth)
      then show "(case column filled c ! i of Some s \<Rightarrow> s * the (map_of ws c) | None \<Rightarrow> 0)
          = filled_score (column renamed c) i * the (map_of ws c)"
        by (simp add: cols [OF c])
    qed
    then show ?thesis by (rule arg_cong)
  qed
  have "weighted_fvi filled ws dims
      = map (\<lambda>i. (index renamed ! i,
              clip_x 0 100 (true_div
                (\<Sum>col\<leftarrow>dims. case column filled col ! i of
                    Some s \<Rightarrow> s * the (map_of ws col) | None \<Rightarrow> 0)
                (\<Sum>d\<leftarrow>dims. the (map_of ws d)))))
          [0..<length (index renamed)]"
    by (simp add: weighted_fvi_def idx)
  also have "\<dots> = map (\<lambda>i. (index renamed ! i, Some (clip 0 100 (composite_index ws renamed dims i))))
          [0..<length (index renamed)]"
    by (rule map_cong) (simp_all add: num total true_div_def composite_index_def)
  finally show ?thesis .
qed

text \<open>
  Claim C1, as amended.  Take a well-formed, non-empty score table whose normalized
  labels meet the keys of the active profile.  If each label of the intersection belongs
  to exactly one column and the weights of the intersection do not sum to zero, then
  \<open>compute_fvi\<close> returns, for each row, the weighted mean of the filled scores over the
  intersection, clipped to \<open>[0, 100]\<close>; every value of the series is a number in that
  range.
\<close>

theorem compute_fvi_weighted_mean:
  assumes "df = heap st ! ref" and "ws = current_weights st"
    and "renamed = rename_columns normalize_column_name df"
    and "dims = available ws df"
    and "wf_frame df" and "\<not> empty_frame df" and "dims \<noteq> []"
    and "\<forall>c\<in>set dims. length (filter (\<lambda>name. name = c) (map fst (cols renamed))) = 1"
    and "(\<Sum>d\<leftarrow>dims. the (map_of ws d)) \<noteq> 0"
  shows "\<exists>s. fst (compute_fvi ref st) = Inr s
           \<and> s = map (\<lambda>i. (index df ! i, Some (clip 0 100 (composite_index ws renamed dims i))))
                   [0..<length (index df)]
           \<and> (\<forall>(country, v)\<in>set s. \<exists>x. v = Some x \<and> 0 \<le> x \<and> x \<le> 100)"
proof -
  let ?a = "length (heap st)"
  let ?st2 = "renamed_copy ref st"
  let ?r = "fill_loop dims ?a ?st2"
  have at: "heap ?st2 ! ?a = renamed" and len: "?a < length (heap ?st2)"
    by (simp_all add: renamed_copy_simps assms(1,3))
  have once: "\<forall>c\<in>set dims. length (filter (\<lambda>name. name = c) (map fst (cols (heap ?st2 ! ?a)))) = 1"
    using assms(8) by (simp only: at)
  from fill_loop_result [OF len once]
  have ok: "fst ?r = Inr ()"
    and idx: "index (heap (snd ?r) ! ?a) = index renamed"
    and filled: "\<And>c. c \<in> set dims \<Longrightarrow> column (heap (snd ?r) ! ?a) c = fill_median (column renamed c)"
    by (simp_all add: at)
  have wf: "wf_frame renamed"
    using assms(5) unfolding assms(3) by (rule wf_rename_columns)
  have labels: "set dims \<subseteq> set (map fst (cols renamed))"
    unfolding assms(3,4) by (rule available_subset_labels)
  have mean: "weighted_fvi (heap (snd ?r) ! ?a) ws dims
      = map (\<lambda>i. (index df ! i, Some (clip 0 100 (composite_index ws renamed dims i))))
          [0..<length (index df)]"
    using weighted_fvi_filled [OF wf labels idx filled assms(9)]
    by (simp add: assms(3) index_rename_columns)
  obtain res st3 where r: "?r = (res, st3)" by fastforce
  with ok have res: "res = Inr ()" by simp
  have "fst (compute_fvi ref st) = Inr (weighted_fvi (heap (snd ?r) ! ?a) ws dims)"
    using assms(6,7) r res
    by (simp add: compute_fvi_unfold assms(1,2,4) [symmetric])
  with mean have result: "fst (compute_fvi ref st)
      = Inr (map (\<lambda>i. (index df ! i, Some (clip 0 100 (composite_index ws renamed dims i))))
          [0..<length (index df)])"
    by simp
  have range: "\<forall>(country, v)\<in>set (map (\<lambda>i. (index df ! i, Some (clip 0 100 (composite_index ws renamed dims i))))
          [0..<length (index df)]). \<exists>x. v = Some x \<and> 0 \<le> x \<and> x \<le> 100"
    by (auto simp: clip_def)
  from result range show ?thesis by blast
qed

theorem compute_fvi_weighted_mean_witness:
  "fst (compute_fvi 0 example_state) = Inr [(''India'', Some 40), (''China'', Some 70)]
   \<and> composite_index (current_weights example_state)
        (rename_columns normalize_column_name example_scores) [''economic'', ''emissions''] 0 = 40
   \<and> composite_index (current_weights example_state)
        (rename_columns normalize_column_name example_scores) [''economic'', ''emissions''] 1 = 70"
proof -
  let ?ws = "current_weights example_state"
  let ?renamed = "rename_columns normalize_column_name example_scores"
  let ?dims = "available ?ws example_scores"
  have df: "example_scores = heap example_state ! 0"
    by (simp add: example_state_def init_def Let_def)
  have dims: "?dims = [''economic'', ''emissions'']"
    by code_simp
  have wf: "wf_frame example_scores"
    by (simp add: wf_frame_def example_scores_def)
  have ne: "\<not> empty_frame example_scores"
    by (simp add: empty_frame_def example_scores_def)
  have nonempty: "?dims \<noteq> []"
    by (simp add: dims)
  have once: "\<forall>c\<in>set ?dims. length (filter (\<lambda>name. name = c) (map fst (cols ?renamed))) = 1"
    unfolding dims by code_simp
  have total: "(\<Sum>d\<leftarrow>?dims. the (map_of ?ws d)) \<noteq> 0"
    unfolding dims by code_simp
  have c0: "composite_index ?ws ?renamed [''economic'', ''emissions''] 0 = 40"
    by code_simp
  have c1: "composite_index ?ws ?renamed [''economic'', ''emissions''] 1 = 70"
    by code_simp
  have idx: "index example_scores = [''India'', ''China'']"
    by (simp add: example_scores_def)
  from compute_fvi_weighted_mean [OF df refl refl refl wf ne nonempty once total]
  have "fst (compute_fvi 0 example_state)
      = Inr (map (\<lambda>i. (index example_scores ! i,
                Some (clip 0 100 (composite_index ?ws ?renamed ?dims i))))
             [0..<length (index example_scores)])"
    by blast
  then have "fst (compute_fvi 0 example_state) = Inr [(''India'', Some 40), (''China'', Some 70)]"
    by (simp add: dims idx upt_rec c0 c1 [unfolded One_nat_def] clip_def)
  with c0 c1 show ?thesis by simp
qed

text \<open>
  The claim as written fails in two ways.  With a profile that gives the economic
  dimension the weight 0 and a table that scores only that dimension, the intersection is
  not empty, the weights sum to zero, and the value for the country is \<open>NaN\<close>, not a
  number of \<open>[0, 100]\<close>.  With two labels that normalize to \<open>economic\<close>, the intersection
  is not empty and \<open>compute_fvi\<close> raises \<open>ValueError\<close> instead of returning.
\<close>

theorem weighted_mean_claim_counterexample:
  "\<not> empty_frame economic_only
   \<and> available (current_weights (init zero_weight_config [economic_only])) economic_only
        = [''economic'']
   \<and> fst (compute_fvi 0 (init zero_weight_config [economic_only])) = Inr [(''India'', None)]
   \<and> \<not> empty_frame clashing_labels
   \<and> available (current_weights (init [] [clashing_labels])) clashing_labels = [''economic'']
   \<and> fst (compute_fvi 0 (init [] [clashing_labels])) = Inl ValueError"
  by code_simp

subsection \<open>The built-in profiles\<close>

lemma default_weights_positive:
  assumes "(persona, ws) \<in> set default_weights" and "(d, w) \<in> set ws"
  shows "0 < w"
  using assms by (auto simp: default_weights_def)

lemma positive_profile_sum:
  fixes ws :: profile
  assumes pos: "\<forall>(d, w)\<in>set ws. 0 < w"
    and sub: "set dims \<subseteq> set (map fst ws)" and ne: "dims \<noteq> []"
  shows "0 < (\<Sum>d\<leftarrow>dims. the (map_of ws d))"
proof -
  have each: "0 < the (map_of ws d)" if "d \<in> set dims" for d
  proof -
    from that sub have "map_of ws d \<noteq> None" by (auto simp: map_of_eq_None_iff)
    then obtain w where w: "map_of ws d = Some w" by blast
    then have "(d, w) \<in> set ws" by (rule map_of_SomeD)
    with pos w show ?thesis by auto
  qed
  from ne each show ?thesis
  proof (induction dims)
    case Nil
    then show ?case by simp
  next
    case (Cons d rest)
    show ?case
    proof (cases "rest = []")
      case True
      with Cons.prems show ?thesis by simp
    next
      case False
      with Cons have "0 < (\<Sum>d\<leftarrow>rest. the (map_of ws d))" by simp
      moreover have "0 < the (map_of ws d)" using Cons.prems by simp
      ultimately show ?thesis by (simp add: add_pos_pos)
    qed
  qed
qed

lemma default_profile_sum_nonzero:
  assumes "(persona, ws) \<in> set default_weights" and "available ws df \<noteq> []"
  shows "(\<Sum>d\<leftarrow>available ws df. the (map_of ws d)) \<noteq> 0"
proof -
  have "\<forall>(d, w)\<in>set ws. 0 < w"
    using default_weights_positive [OF assms(1)] by auto
  from positive_profile_sum [OF this available_subset_keys assms(2)]
  show ?thesis by simp
qed

subsection \<open>The result depends on the table and the weights only\<close>

lemma fill_loop_local:
  assumes "a < length (heap st)" and "b < length (heap st')" and "heap st ! a = heap st' ! b"
  shows "fst (fill_loop cs a st) = fst (fill_loop cs b st')
       \<and> heap (snd (fill_loop cs a st)) ! a = heap (snd (fill_loop cs b st')) ! b"
  using assms
proof (induction cs arbitrary: st st')
  case Nil
  then show ?case by simp
next
  case (Cons col rest)
  let ?df = "heap st ! a"
  let ?df' = "set_column col (fill_median (column ?df col)) ?df"
  show ?case
  proof (cases "length (filter (\<lambda>name. name = col) (map fst (cols ?df))) = 1")
    case False
    with Cons.prems show ?thesis by (simp add: Let_def)
  next
    case True
    let ?s = "st\<lparr>heap := (heap st)[a := ?df']\<rparr>"
    let ?s' = "st'\<lparr>heap := (heap st')[b := ?df']\<rparr>"
    have l: "fill_loop (col # rest) a st = fill_loop rest a ?s"
      using True by (simp add: Let_def fill_median_def)
    have r: "fill_loop (col # rest) b st' = fill_loop rest b ?s'"
      using True Cons.prems(3) by (simp add: Let_def fill_median_def)
    have "a < length (heap ?s)" "b < length (heap ?s')" "heap ?s ! a = heap ?s' ! b"
      using Cons.prems by simp_all
    from Cons.IH [OF this] show ?thesis
      unfolding l r .
  qed
qed

lemma compute_fvi_local:
  assumes "heap st ! ref = heap st' ! ref'" and "current_weights st = current_weights st'"
  shows "fst (compute_fvi ref st) = fst (compute_fvi ref' st')"
proof -
  let ?df = "heap st ! ref"
  let ?ws = "current_weights st"
  let ?av = "available ?ws ?df"
  let ?l = "fill_loop ?av (length (heap st)) (renamed_copy ref st)"
  let ?r = "fill_loop ?av (length (heap st')) (renamed_copy ref' st')"
  have "length (heap st) < length (heap (renamed_copy ref st))"
    "length (heap st') < length (heap (renamed_copy ref' st'))"
    "heap (renamed_copy ref st) ! length (heap st) = heap (renamed_copy ref' st') ! length (heap st')"
    by (simp_all add: renamed_copy_simps assms(1))
  from fill_loop_local [OF this, of ?av]
  have eq: "fst ?l = fst ?r"
    "heap (snd ?l) ! length (heap st) = heap (snd ?r) ! length (heap st')"
    by simp_all
  obtain x s3 y s3' where l: "?l = (x, s3)" and r: "?r = (y, s3')"
    by fastforce
  with eq have xy: "x = y" "heap s3 ! length (heap st) = heap s3' ! length (heap st')"
    by simp_all
  show ?thesis
    by (cases y)
      (simp_all add: compute_fvi_unfold assms [symmetric] l r [unfolded assms [symmetric]] xy)
qed

subsection \<open>\<open>set_persona\<close>\<close>

lemma set_persona_frame:
  "heap (snd (set_persona persona st)) = heap st
   \<and> scores_df (snd (set_persona persona st)) = scores_df st
   \<and> weights (snd (set_persona persona st)) = weights st"
  by (simp add: set_persona_def Let_def split: option.splits)

lemma set_persona_known:
  assumes "map_of (weights st) persona = Some w"
  shows "set_persona persona st =
     (Inr (), st\<lparr>current_persona := persona, current_weights := w,
                  logged := logged st @ [(INFO, ''Set persona'')]\<rparr>)"
proof -
  from assms have "persona \<in> set (map fst (weights st))"
    by (metis map_of_eq_None_iff option.distinct(1) set_map)
  with assms show ?thesis by (simp add: set_persona_def Let_def)
qed

lemma set_persona_returns:
  assumes "set_persona persona st = (Inr u, st')"
  shows "map_of (weights st) (current_persona st') = Some (current_weights st')
       \<and> (persona \<in> set (map fst (weights st)) \<longrightarrow> current_persona st' = persona)"
  using assms by (auto simp: set_persona_def Let_def split: option.splits if_splits)

subsection \<open>\<open>compare_personas\<close>\<close>

lemma update_fresh_key:
  "k \<notin> set (map fst al) \<Longrightarrow> AList.update k v al = al @ [(k, v)]"
  by (induction al) auto

lemma compare_loop_spec:
  assumes "compare_loop ps ref acc st = (Inr results, st')"
    and "ref < length (heap st)"
    and "set ps \<subseteq> set (map fst (weights st))"
    and "distinct ps"
    and "set ps \<inter> set (map fst acc) = {}"
  shows "weights st' = weights st \<and> heap st' ! ref = heap st ! ref
       \<and> length (heap st) \<le> length (heap st')
       \<and> (\<exists>rs. results = acc @ rs
             \<and> list_all2 (\<lambda>p (p', s). p' = p
                    \<and> fst (compute_fvi ref (st\<lparr>current_weights := the (map_of (weights st) p)\<rparr>)) = Inr s)
                  ps rs)"
  using assms
proof (induction ps arbitrary: acc st)
  case Nil
  then show ?case by simp
next
  case (Cons p rest)
  from Cons.prems(3) have "map_of (weights st) p \<noteq> None"
    by (simp add: map_of_eq_None_iff)
  then obtain w where w: "map_of (weights st) p = Some w" by blast
  let ?st1 = "st\<lparr>current_persona := p, current_weights := w,
                  logged := logged st @ [(INFO, ''Set persona'')]\<rparr>"
  have sp: "set_persona p st = (Inr (), ?st1)"
    using w by (rule set_persona_known)
  obtain x st2 where c: "compute_fvi ref ?st1 = (x, st2)" by fastforce
  from Cons.prems(1) sp c obtain s where x: "x = Inr s"
    and rest: "compare_loop rest ref (AList.update p s acc) st2 = (Inr results, st')"
    by (cases x) simp_all
  have st2: "weights st2 = weights st" "length (heap st) \<le> length (heap st2)"
    "heap st2 ! ref = heap st ! ref"
    using compute_fvi_fields [of ref ?st1] compute_fvi_heap [of ref ?st1 ref] Cons.prems(2) c
    by simp_all
  have fresh: "p \<notin> set (map fst acc)"
    using Cons.prems(5) by auto
  then have upd: "AList.update p s acc = acc @ [(p, s)]"
    by (rule update_fresh_key)
  have "ref < length (heap st2)" "set rest \<subseteq> set (map fst (weights st2))" "distinct rest"
    "set rest \<inter> set (map fst (acc @ [(p, s)])) = {}"
    using Cons.prems st2 by auto
  from Cons.IH [OF rest [unfolded upd] this]
  obtain rs where ih: "weights st' = weights st2" "heap st' ! ref = heap st2 ! ref"
    "length (heap st2) \<le> length (heap st')" "results = (acc @ [(p, s)]) @ rs"
    "list_all2 (\<lambda>q (q', t). q' = q
        \<and> fst (compute_fvi ref (st2\<lparr>current_weights := the (map_of (weights st2) q)\<rparr>)) = Inr t)
      rest rs"
    by blast
  have same: "fst (compute_fvi ref (st2\<lparr>current_weights := v\<rparr>))
      = fst (compute_fvi ref (st\<lparr>current_weights := v\<rparr>))" for v
    by (rule compute_fvi_local) (simp_all add: st2)
  have head: "fst (compute_fvi ref (st\<lparr>current_weights := the (map_of (weights st) p)\<rparr>)) = Inr s"
  proof -
    have "fst (compute_fvi ref (st\<lparr>current_weights := w\<rparr>)) = fst (compute_fvi ref ?st1)"
      by (rule compute_fvi_local) simp_all
    with c x w show ?thesis by simp
  qed
  have tail: "list_all2 (\<lambda>q (q', t). q' = q
        \<and> fst (compute_fvi ref (st\<lparr>current_weights := the (map_of (weights st) q)\<rparr>)) = Inr t)
      rest rs"
    using ih(5) by (simp add: same st2)
  have "results = acc @ ((p, s) # rs)"
    using ih(4) by simp
  moreover have "list_all2 (\<lambda>q (q', t). q' = q
        \<and> fst (compute_fvi ref (st\<lparr>current_weights := the (map_of (weights st) q)\<rparr>)) = Inr t)
      (p # rest) ((p, s) # rs)"
    using head tail by simp
  ultimately show ?case
    using ih st2 by auto
qed

text \<open>
  \<open>compare_personas\<close> returns when the active persona is a key of \<open>self.weights\<close> and
  \<open>compute_fvi\<close> returns for the table under every profile.
\<close>

lemma compare_loop_returns:
  assumes "ref < length (heap st)"
    and "\<forall>p\<in>set ps. \<exists>w s. map_of (weights st) p = Some w
            \<and> fst (compute_fvi ref (st\<lparr>current_weights := w\<rparr>)) = Inr s"
  shows "\<exists>results st'. compare_loop ps ref acc st = (Inr results, st')"
  using assms
proof (induction ps arbitrary: acc st)
  case Nil
  then show ?case by simp
next
  case (Cons p rest)
  from Cons.prems(2) obtain w s where w: "map_of (weights st) p = Some w"
    and s: "fst (compute_fvi ref (st\<lparr>current_weights := w\<rparr>)) = Inr s"
    by auto
  let ?st1 = "st\<lparr>current_persona := p, current_weights := w,
                  logged := logged st @ [(INFO, ''Set persona'')]\<rparr>"
  have sp: "set_persona p st = (Inr (), ?st1)"
    using w by (rule set_persona_known)
  have "fst (compute_fvi ref ?st1) = fst (compute_fvi ref (st\<lparr>current_weights := w\<rparr>))"
    by (rule compute_fvi_local) simp_all
  with s obtain st2 where c: "compute_fvi ref ?st1 = (Inr s, st2)"
    by (metis prod.collapse)
  have st2: "weights st2 = weights st" "length (heap st) \<le> length (heap st2)"
    "heap st2 ! ref = heap st ! ref"
    using compute_fvi_fields [of ref ?st1] compute_fvi_heap [of ref ?st1 ref] Cons.prems(1) c
    by simp_all
  have same: "fst (compute_fvi ref (st2\<lparr>current_weights := v\<rparr>))
      = fst (compute_fvi ref (st\<lparr>current_weights := v\<rparr>))" for v
    by (rule compute_fvi_local) (simp_all add: st2)
  have "ref < length (heap st2)"
    using Cons.prems(1) st2(2) by simp
  moreover have "\<forall>q\<in>set rest. \<exists>w s. map_of (weights st2) q = Some w
            \<and> fst (compute_fvi ref (st2\<lparr>current_weights := w\<rparr>)) = Inr s"
    using Cons.prems(2) by (simp add: st2 same)
  ultimately obtain results st'
    where "compare_loop rest ref (AList.update p s acc) st2 = (Inr results, st')"
    using Cons.IH by blast
  then show ?case
    by (simp add: sp c)
qed

lemma compare_personas_returns:
  assumes "aggregator_inv st" and "ref < length (heap st)"
    and "current_persona st \<in> set (map fst (weights st))"
    and "\<forall>(p, w)\<in>set (weights st). \<exists>s. fst (compute_fvi ref (st\<lparr>current_weights := w\<rparr>)) = Inr s"
  shows "\<exists>results st'. compare_personas ref st = (Inr results, st')"
proof -
  from assms(1) have dist: "distinct (map fst (weights st))"
    by (simp add: aggregator_inv_def)
  have "\<forall>p\<in>set (map fst (weights st)). \<exists>w s. map_of (weights st) p = Some w
            \<and> fst (compute_fvi ref (st\<lparr>current_weights := w\<rparr>)) = Inr s"
  proof
    fix p assume "p \<in> set (map fst (weights st))"
    then obtain w where pw: "(p, w) \<in> set (weights st)" by auto
    with dist have "map_of (weights st) p = Some w" by simp
    moreover from pw assms(4) have "\<exists>s. fst (compute_fvi ref (st\<lparr>current_weights := w\<rparr>)) = Inr s"
      by auto
    ultimately show "\<exists>w s. map_of (weights st) p = Some w
            \<and> fst (compute_fvi ref (st\<lparr>current_weights := w\<rparr>)) = Inr s" by blast
  qed
  from compare_loop_returns [OF assms(2) this] obtain rs st1
    where loop: "compare_loop (map fst (weights st)) ref [] st = (Inr rs, st1)" by blast
  from compare_loop_spec [OF loop assms(2) subset_refl dist]
  have w1: "weights st1 = weights st" by simp
  from assms(3) have "map_of (weights st1) (current_persona st) \<noteq> None"
    by (simp add: w1 map_of_eq_None_iff)
  then obtain w where "map_of (weights st1) (current_persona st) = Some w" by blast
  from set_persona_known [OF this] loop show ?thesis
    by (simp add: compare_personas_def)
qed

text \<open>
  Claim C8.  Let \<open>compare_personas\<close> return on an aggregator that satisfies its
  invariant.  Then the active persona and the active weights are what they were before
  the call, and the result holds, for each persona of \<open>self.weights\<close> in order, the
  series that \<open>compute_fvi\<close> returns for the table under that persona's weights.
  \<open>set_persona\<close>, whatever its argument, leaves every table, the reference
  \<open>self.scores_df\<close> and the persona table as they are.  (When \<open>compare_personas\<close>
  does return is the subject of \<open>compare_personas_returns\<close>.)
\<close>

theorem compare_personas_restores_persona:
  assumes "aggregator_inv st" and "ref < length (heap st)"
    and "compare_personas ref st = (Inr results, st')"
  shows "current_persona st' = current_persona st
       \<and> current_weights st' = current_weights st
       \<and> list_all2 (\<lambda>(p, w) (p', s). p' = p
              \<and> fst (compute_fvi ref (st\<lparr>current_weights := w\<rparr>)) = Inr s)
            (weights st) results
       \<and> (\<forall>persona. heap (snd (set_persona persona st)) = heap st
              \<and> scores_df (snd (set_persona persona st)) = scores_df st
              \<and> weights (snd (set_persona persona st)) = weights st)"
proof -
  let ?keys = "map fst (weights st)"
  from assms(1) have dist: "distinct ?keys"
    by (simp add: aggregator_inv_def)
  obtain x st1 where loop: "compare_loop ?keys ref [] st = (x, st1)" by fastforce
  with assms(3) obtain rs where x: "x = Inr rs"
    by (cases x) (simp_all add: compare_personas_def)
  obtain y st2 where restore: "set_persona (current_persona st) st1 = (y, st2)" by fastforce
  with assms(3) loop x have y: "y = Inr ()" and res: "results = rs" and final: "st' = st2"
    by (cases y; simp add: compare_personas_def)+
  from compare_loop_spec [OF loop [unfolded x] assms(2) subset_refl dist]
  have w1: "weights st1 = weights st"
    and all: "list_all2 (\<lambda>p (p', s). p' = p
        \<and> fst (compute_fvi ref (st\<lparr>current_weights := the (map_of (weights st) p)\<rparr>)) = Inr s)
      ?keys rs"
    by auto
  from set_persona_returns [OF restore [unfolded y]]
  have now: "map_of (weights st) (current_persona st2) = Some (current_weights st2)"
    and known: "current_persona st \<in> set ?keys \<Longrightarrow> current_persona st2 = current_persona st"
    by (simp_all add: w1)
  have persona: "current_persona st2 = current_persona st"
  proof (cases "current_persona st \<in> set ?keys")
    case True
    then show ?thesis by (rule known)
  next
    case False
    then have none: "map_of (weights st) (current_persona st) = None"
      by (simp add: map_of_eq_None_iff)
    with assms(1) have "current_persona st = ''analyst''"
      by (simp add: aggregator_inv_def)
    moreover from restore False have "current_persona st2 = ''analyst''"
      by (auto simp: set_persona_def Let_def w1 split: option.splits)
    ultimately show ?thesis by simp
  qed
  with now assms(1) have active: "current_weights st2 = current_weights st"
    by (simp add: aggregator_inv_def)
  have each: "list_all2 (\<lambda>(p, w) (p', s). p' = p
        \<and> fst (compute_fvi ref (st\<lparr>current_weights := w\<rparr>)) = Inr s) (weights st) rs"
  proof -
    have lookup: "the (map_of (weights st) (fst pw)) = snd pw" if "pw \<in> set (weights st)" for pw
    proof -
      obtain p w where "pw = (p, w)" by (cases pw)
      with that dist show ?thesis by simp
    qed
    from all have "list_all2 (\<lambda>pw (p', s). p' = fst pw
        \<and> fst (compute_fvi ref (st\<lparr>current_weights := the (map_of (weights st) (fst pw))\<rparr>)) = Inr s)
        (weights st) rs"
      by (simp add: list_all2_map1)
    then show ?thesis
      by (rule list.rel_mono_strong) (auto simp: lookup split_def)
  qed
  from persona active each show ?thesis
    by (simp add: final res set_persona_frame)
qed

theorem compare_personas_restores_persona_witness:
  "fst (compare_personas 0 investor_state) =
     Inr [(''investor'', [(''India'', Some (380 / 9)), (''China'', Some (620 / 9))]),
          (''policy_maker'', [(''India'', Some 40), (''China'', Some 70)]),
          (''ngo'', [(''India'', Some (80 / 3)), (''China'', Some (230 / 3))]),
          (''analyst'', [(''India'', Some 40), (''China'', Some 70)]),
          (''citizen'', [(''India'', Some 44), (''China'', Some 68)])]
   \<and> current_persona investor_state = ''investor''
   \<and> current_persona (snd (compare_personas 0 investor_state)) = ''investor''
   \<and> current_weights (snd (compare_personas 0 investor_state)) = current_weights investor_state"
proof -
  have inv: "aggregator_inv investor_state"
    by code_simp
  have ref: "0 < length (heap investor_state)"
    by code_simp
  have res: "fst (compare_personas 0 investor_state) =
     Inr [(''investor'', [(''India'', Some (380 / 9)), (''China'', Some (620 / 9))]),
          (''policy_maker'', [(''India'', Some 40), (''China'', Some 70)]),
          (''ngo'', [(''India'', Some (80 / 3)), (''China'', Some (230 / 3))]),
          (''analyst'', [(''India'', Some 40), (''China'', Some 70)]),
          (''citizen'', [(''India'', Some 44), (''China'', Some 68)])]"
    by code_simp
  have persona: "current_persona investor_state = ''investor''"
    by code_simp
  from res have "compare_personas 0 investor_state =
     (Inr [(''investor'', [(''India'', Some (380 / 9)), (''China'', Some (620 / 9))]),
          (''policy_maker'', [(''India'', Some 40), (''China'', Some 70)]),
          (''ngo'', [(''India'', Some (80 / 3)), (''China'', Some (230 / 3))]),
          (''analyst'', [(''India'', Some 40), (''China'', Some 70)]),
          (''citizen'', [(''India'', Some 44), (''China'', Some 68)])],
      snd (compare_personas 0 investor_state))"
    by (metis prod.collapse)
  from compare_personas_restores_persona [OF inv ref this] res persona
  show ?thesis by simp
qed

subsection \<open>The invariant holds of every aggregator\<close>

lemma init_inv:
  assumes "distinct (map fst persona_weights)"
  shows "aggregator_inv (init persona_weights h)"
proof -
  have "distinct (map fst default_weights)"
    by (simp add: default_weights_def)
  with assms show ?thesis
    by (simp add: aggregator_inv_def init_def Let_def dict_get_def split: option.splits)
qed

lemma set_persona_inv:
  assumes "aggregator_inv st"
  shows "aggregator_inv (snd (set_persona persona st))"
proof -
  from assms have dist: "distinct (map fst (weights st))"
    by (simp add: aggregator_inv_def)
  show ?thesis
  proof (cases "persona \<in> set (map fst (weights st))")
    case True
    then have "map_of (weights st) persona \<noteq> None"
      by (simp add: map_of_eq_None_iff)
    then obtain w where w: "map_of (weights st) persona = Some w" by blast
    show ?thesis
      unfolding set_persona_known [OF w] aggregator_inv_def
      using dist w by (simp del: map_of_eq_Some_iff)
  next
    case False
    show ?thesis
    proof (cases "map_of (weights st) ''analyst''")
      case None
      with False dist show ?thesis
        by (simp add: aggregator_inv_def set_persona_def Let_def)
    next
      case (Some w)
      with False dist show ?thesis
        by (simp add: aggregator_inv_def set_persona_def Let_def del: map_of_eq_Some_iff)
    qed
  qed
qed

lemma compute_fvi_inv:
  assumes "aggregator_inv st"
  shows "aggregator_inv (snd (compute_fvi ref st))"
proof -
  have same: "weights (snd (compute_fvi ref st)) = weights st"
    "current_persona (snd (compute_fvi ref st)) = current_persona st"
    "current_weights (snd (compute_fvi ref st)) = current_weights st"
    by (simp_all add: compute_fvi_fields)
  show ?thesis
    using assms unfolding aggregator_inv_def same .
qed

section \<open>Metric extractor\<close>

subsection \<open>Dropping duplicates\<close>





subsection \<open>Sorting by year\<close>




subsection \<open>The latest row of each country\<close>



subsection \<open>Matching a row\<close>







subsection \<open>What one dataset yields\<close>




subsection \<open>The two tiers\<close>









subsection \<open>An admissible sort\<close>





section \<open>Dimension scorers\<close>

lemma score_from_features_range:
  "0 \<le> score_from_features features \<and> score_from_features features \<le> 100"
  by (simp add: score_from_features_def Let_def)

lemma normalize_score_range:
  "0 \<le> dflt \<Longrightarrow> dflt \<le> 100 \<Longrightarrow>
     0 \<le> normalize_score v lo hi dflt \<and> normalize_score v lo hi dflt \<le> 100"
  by (simp add: normalize_score_def split: option.splits)

text \<open>
  Claim C2 does not hold of the infrastructure scorer.  A \<open>hazard_score\<close> of 150 is
  stored as it is, a \<open>coal_dependency_score\<close> of \<open>-0.5\<close> becomes \<open>-50\<close>, and the weighted
  average of two datasets that score a country 150 is 150.
\<close>

theorem infrastructure_score_out_of_range:
  "calculate_scores_for_dataset True hazard_rows [''India''] = [(''India'', 150)]
   \<and> calculate_scores_for_dataset True dependency_rows [''India''] = [(''India'', - 50)]
   \<and> aggregate_infrastructure_scores
        [(''hazards_a'', calculate_scores_for_dataset True hazard_rows [''India'']),
         (''hazards_b'', calculate_scores_for_dataset True hazard_rows [''India''])]
        [''India''] = [(''India'', 150)]"
  by code_simp

end
